theory Spec2Isabelle
  imports Main
begin

section \<open>Bug report client: data model\<close>

text \<open>
  The repository holds several versions of the same HTTP client class
  \<^verbatim>\<open>BugReportClient\<close> and two versions of its schema file. They are embedded
  side by side and told apart by a suffix:
  \<^item> \<open>_A\<close>: \<^verbatim>\<open>src/src/client/index.ts\<close> lines 141-316 (options with \<^verbatim>\<open>appName\<close>,
    all requests through \<^verbatim>\<open>fetch\<close>); lines 22-119 of the same file are the same text
    with only \<^verbatim>\<open>submitBugReport\<close> and \<^verbatim>\<open>getBugReport\<close>;
  \<^item> \<open>_B\<close>: \<^verbatim>\<open>src/src/client/index.ts\<close> lines 339-529 (\<^verbatim>\<open>defaultFetchOptions\<close> and the
    private method \<^verbatim>\<open>handleResponse\<close>);
  \<^item> \<open>_C\<close>: \<^verbatim>\<open>src/unnamed/part_000\<close> lines 31-403;
  \<^item> \<open>_D\<close>: \<^verbatim>\<open>src/unnamed/part_001\<close> lines 27-419 (credentials checked by
    \<^verbatim>\<open>AppCredentialsSchema\<close>).

  Strings are lists of code units, so \<open>length\<close> is the \<^verbatim>\<open>.length\<close> that the schema
  library compares with its bounds. An object used as a dictionary
  (\<^verbatim>\<open>Record<string, string>\<close>) is a map; the order of its keys plays no part below.
\<close>

subsection \<open>Rendering numbers inside template strings\<close>

definition digit_char :: "nat \<Rightarrow> char" where
  "digit_char d = ''0123456789'' ! (d mod 10)"

fun show_nat :: "nat \<Rightarrow> string" where
  "show_nat n = (if n < 10 then [digit_char n] else show_nat (n div 10) @ [digit_char (n mod 10)])"

declare show_nat.simps [simp del]

definition decimal :: "int \<Rightarrow> string" where
  \<comment> \<open>the decimal numeral of an integer\<close>
  "decimal i = (if i < 0 then CHR ''-'' # show_nat (nat (- i)) else show_nat (nat i))"

definition Number_toString :: "(int \<Rightarrow> string) \<Rightarrow> int \<Rightarrow> string" where
  \<comment> \<open>what \<^verbatim>\<open>${n}\<close> gives for an integral number \<open>n\<close>. Up to
      \<^verbatim>\<open>Number.MAX_SAFE_INTEGER\<close> every integer is a number of the platform and is
      printed with all its digits. Beyond it a number is printed with its shortest
      round-trip digits, and from \<^verbatim>\<open>1e21\<close> on in exponent form: that rendering is
      the platform's, the parameter \<open>beyond\<close>\<close>
  "Number_toString beyond n =
     (if \<bar>n\<bar> \<le> 9007199254740991 then decimal n else beyond n)"

subsection \<open>Errors (\<^verbatim>\<open>src/src/errors/index.ts\<close>)\<close>

record BugReportErrorData =
  code :: int
  status :: string
  message :: string

datatype zod_key = Key string | Index nat

datatype zod_issue = ZodIssue (issue_code: string) (issue_path: "zod_key list")

type_synonym ZodError = "zod_issue list"

text \<open>
  A thrown value. \<open>Error m\<close> is \<^verbatim>\<open>new Error(m)\<close> with a literal message, and
  \<open>StatusError t st\<close> is \<^verbatim>\<open>new Error(`t${xhr.status}`)\<close>: an object of the plain
  class \<^verbatim>\<open>Error\<close> whose message is the text \<open>t\<close> followed by the status number.
  \<open>InvalidBugReportData z\<close> is \<^verbatim>\<open>new Error(`Invalid bug report data: ${error}`)\<close> for the
  caught schema error \<open>z\<close>: an object of the plain class \<^verbatim>\<open>Error\<close> whose message
  is that fixed prefix followed by the schema library's rendering of the issues.
  \<open>AppCredentialTypeError z\<close> is
  \<^verbatim>\<open>new AppCredentialTypeError(`Failed to initialize BugReportClient: ${error}`)\<close>; the
  class is imported by \<^verbatim>\<open>part_001\<close> from \<^verbatim>\<open>../errors\<close>, and the errors file at hand
  does not declare it, so only its name is known.
  \<open>ApiBugReportError c m\<close> and \<open>NotFoundBugReportError c m\<close> are
  \<^verbatim>\<open>new ApiBugReportError(errorData)\<close> and \<^verbatim>\<open>new NotFoundBugReportError(errorData)\<close> for an
  \<^verbatim>\<open>errorData\<close> with code \<open>c\<close> and message \<open>m\<close>: objects of the two classes of the
  errors file, whose message is the template of the class filled with \<open>c\<close> and \<open>m\<close>.
  \<open>Thrown n m\<close> is an error value made outside the client (by the transport or by the
  JSON parser), with its name and message. The code of a response is taken to be integral.
\<close>

datatype error =
    Error string
  | StatusError string nat
  | InvalidBugReportData ZodError
  | AppCredentialTypeError ZodError
  | ApiBugReportError int string
  | NotFoundBugReportError int string
  | Thrown string string

fun error_name :: "error \<Rightarrow> string" where
  "error_name (Error m) = ''Error''"
| "error_name (StatusError t st) = ''Error''"
| "error_name (InvalidBugReportData z) = ''Error''"
| "error_name (AppCredentialTypeError z) = ''AppCredentialTypeError''"
| "error_name (ApiBugReportError c m) = ''ApiBugReportError''"
| "error_name (NotFoundBugReportError c m) = ''NotFoundBugReportError''"
| "error_name (Thrown n m) = n"

fun error_message :: "(int \<Rightarrow> string) \<Rightarrow> (ZodError \<Rightarrow> string) \<Rightarrow> error \<Rightarrow> string" where
  "error_message beyond zod (Error m) = m"
| "error_message beyond zod (StatusError t st) = t @ Number_toString beyond (int st)"
| "error_message beyond zod (InvalidBugReportData z) = ''Invalid bug report data: '' @ zod z"
| "error_message beyond zod (AppCredentialTypeError z) =
     ''Failed to initialize BugReportClient: '' @ zod z"
| "error_message beyond zod (ApiBugReportError c m) =
     ''API Error ['' @ Number_toString beyond c @ '']: '' @ m"
| "error_message beyond zod (NotFoundBugReportError c m) =
     ''Not Found Error ['' @ Number_toString beyond c @ '']: '' @ m"
| "error_message beyond zod (Thrown n m) = m"

text \<open>
  \<open>error_message\<close> is the message of the error object, given the platform's rendering of
  the numbers beyond the safe integers and the schema library's rendering of its issues.
  For \<open>AppCredentialTypeError\<close> it is the text handed to the constructor.
\<close>

definition new_ApiBugReportError :: "'m BugReportErrorData_scheme \<Rightarrow> error" where
  "new_ApiBugReportError errorData = ApiBugReportError (code errorData) (message errorData)"

definition new_NotFoundBugReportError :: "'m BugReportErrorData_scheme \<Rightarrow> error" where
  "new_NotFoundBugReportError errorData =
     NotFoundBugReportError (code errorData) (message errorData)"

subsection \<open>Schemas (the two versions of the types file)\<close>

text \<open>A \<^verbatim>\<open>Date\<close> object holds a time value in milliseconds, or \<^verbatim>\<open>NaN\<close>.\<close>

datatype Date = Date int | Invalid_Date

record BugReport =
  title :: string
  description :: string
  severity :: string
  tags :: "string list"
  createdAt :: "Date option"

text \<open>
  The further optional fields of a report (\<^verbatim>\<open>file\<close> of strings in one version,
  \<^verbatim>\<open>image\<close> and \<^verbatim>\<open>metadata\<close> in the other) are the extension part \<open>'z\<close> of the
  record: their schemas accept every value of their type, and the client only copies them.
\<close>

record File =
  file_name :: string
  file_type :: string
  file_size :: nat

record BugReportFile = BugReport +
  report_file :: "File list"

record ApiErrorResponse =
  meta :: BugReportErrorData

record 'a ApiResponse = ApiErrorResponse +
  data :: 'a

definition BugSeverity :: "string list" where
  "BugSeverity = [''LOW'', ''MEDIUM'', ''HIGH'', ''CRITICAL'']"

definition BugTagSchema :: "string list" where
  "BugTagSchema =
     [''UI'', ''FUNCTIONALITY'', ''PERFORMANCE'', ''SECURITY'', ''CRASH'', ''NETWORK'',
      ''DATABASE'', ''OTHER'']"

definition string_min ::
  "nat \<Rightarrow> zod_key list \<Rightarrow> string \<Rightarrow> ZodError" where
  "string_min n path s = (if length s < n then [ZodIssue ''too_small'' path] else [])"

definition string_max ::
  "nat \<Rightarrow> zod_key list \<Rightarrow> string \<Rightarrow> ZodError" where
  "string_max n path s = (if length s > n then [ZodIssue ''too_big'' path] else [])"

definition enum_issues ::
  "string list \<Rightarrow> zod_key list \<Rightarrow> string \<Rightarrow> ZodError" where
  "enum_issues options path s =
     (if s \<in> set options then [] else [ZodIssue ''invalid_enum_value'' path])"

fun array_issues :: "(zod_key list \<Rightarrow> 'a \<Rightarrow> ZodError) \<Rightarrow> zod_key list \<Rightarrow> nat \<Rightarrow> 'a list \<Rightarrow> ZodError" where
  "array_issues item path i [] = []"
| "array_issues item path i (x # xs) = item (path @ [Index i]) x @ array_issues item path (Suc i) xs"

definition array_min ::
  "nat \<Rightarrow> zod_key list \<Rightarrow> 'a list \<Rightarrow> ZodError" where
  "array_min n path xs = (if length xs < n then [ZodIssue ''too_small'' path] else [])"

definition date_optional :: "zod_key list \<Rightarrow> Date option \<Rightarrow> ZodError" where
  "date_optional path d =
     (case d of None \<Rightarrow> [] | Some (Date t) \<Rightarrow> [] | Some Invalid_Date \<Rightarrow> [ZodIssue ''invalid_date'' path])"

definition BugReportSchema_files :: "'z BugReport_scheme \<Rightarrow> ZodError" where
  \<comment> \<open>\<^verbatim>\<open>BugReportSchema\<close> of \<^verbatim>\<open>src/src/client/index.ts\<close> lines 552-559; the issues it
      finds, none when the report is accepted\<close>
  "BugReportSchema_files report =
     string_min 1 [Key ''title''] (title report) @ string_max 200 [Key ''title''] (title report)
     @ string_min 1 [Key ''description''] (description report)
     @ enum_issues BugSeverity [Key ''severity''] (severity report)
     @ array_issues (enum_issues BugTagSchema) [Key ''tags''] 0 (tags report)
     @ date_optional [Key ''createdAt''] (createdAt report)"

definition BugReportSchema_metadata :: "'z BugReport_scheme \<Rightarrow> ZodError" where
  \<comment> \<open>\<^verbatim>\<open>BugReportSchema\<close> of \<^verbatim>\<open>src/src/client/index.ts\<close> lines 636-644, where
      \<^verbatim>\<open>tags\<close> is \<^verbatim>\<open>z.array(BugTagSchema).min(1)\<close>\<close>
  "BugReportSchema_metadata report =
     string_min 1 [Key ''title''] (title report) @ string_max 200 [Key ''title''] (title report)
     @ string_min 1 [Key ''description''] (description report)
     @ enum_issues BugSeverity [Key ''severity''] (severity report)
     @ array_min 1 [Key ''tags''] (tags report)
     @ array_issues (enum_issues BugTagSchema) [Key ''tags''] 0 (tags report)
     @ date_optional [Key ''createdAt''] (createdAt report)"

definition file_refine :: "zod_key list \<Rightarrow> 'f File_scheme \<Rightarrow> ZodError" where
  \<comment> \<open>\<^verbatim>\<open>["image/png", "image/jpeg", "image/jpg", ,].includes(file.type)\<close>: the hole of
      the array literal reads as \<^verbatim>\<open>undefined\<close>, which no string equals\<close>
  "file_refine path f =
     (if file_type f \<in> set [''image/png'', ''image/jpeg'', ''image/jpg''] then []
      else [ZodIssue ''custom'' path])"

definition BugReportFileSchema :: "'z BugReportFile_scheme \<Rightarrow> ZodError" where
  \<comment> \<open>\<^verbatim>\<open>src/src/client/index.ts\<close> lines 561-578\<close>
  "BugReportFileSchema report =
     string_min 1 [Key ''title''] (title report) @ string_max 200 [Key ''title''] (title report)
     @ string_min 1 [Key ''description''] (description report)
     @ enum_issues BugSeverity [Key ''severity''] (severity report)
     @ array_issues (enum_issues BugTagSchema) [Key ''tags''] 0 (tags report)
     @ array_issues file_refine [Key ''file''] 0 (report_file report)
     @ date_optional [Key ''createdAt''] (createdAt report)"

subsection \<open>Requests, replies and runs\<close>

type_synonym headers = "string \<rightharpoonup> string"

text \<open>
  How a request leaves the client: through \<^verbatim>\<open>fetch\<close>, with the \<^verbatim>\<open>credentials\<close> and
  \<^verbatim>\<open>mode\<close> options when the call gives them, or through an \<^verbatim>\<open>XMLHttpRequest\<close> with
  its \<^verbatim>\<open>withCredentials\<close> flag.
\<close>

datatype transport = Fetch "string option" "string option" | XMLHttpRequest bool

datatype form_value = Text string | Blob File

text \<open>
  A request body: none, the text \<^verbatim>\<open>JSON.stringify(obj)\<close>, a stream that delivers the
  encoded bytes of that text, or a \<^verbatim>\<open>FormData\<close> with its entries in the order of
  the \<^verbatim>\<open>append\<close> calls.
\<close>

datatype 'r Body = NoBody | JsonText 'r | JsonStream 'r | FormData "(string \<times> form_value) list"

record 'r Request =
  transport :: transport
  url :: string
  http_method :: string
  req_headers :: headers
  body :: "'r Body"

text \<open>
  What the network answers: the request fails with no HTTP response (\<^verbatim>\<open>fetch\<close>
  rejects with the given error value; an \<^verbatim>\<open>XMLHttpRequest\<close> fires \<^verbatim>\<open>error\<close>, which
  carries no error value), or a response arrives with its status and with what parsing its
  body as JSON gives: the thrown error or the parsed value, typed as the client's casts
  type it.
\<close>

datatype 'b reply = NetworkFailure error | Responded nat "error + 'b"

text \<open>A promise resolves, rejects, or is never settled.\<close>

datatype 'b outcome = Resolved 'b | Rejected error | Pending

record ('r, 'b, 'c) run =
  outcome :: "'b outcome"
  sent :: "'r Request list"
  client :: 'c

definition always :: "'b reply \<Rightarrow> 'r Request \<Rightarrow> 'b reply" where
  \<comment> \<open>a network that gives every request the same reply\<close>
  [simp]: "always r = (\<lambda>request. r)"

definition ok :: "nat \<Rightarrow> bool" where
  \<comment> \<open>\<^verbatim>\<open>response.ok\<close>, by the Fetch standard: the status is in the range 200 to 299\<close>
  "ok st = (200 \<le> st \<and> st \<le> 299)"

subsection \<open>\<^verbatim>\<open>JSON.stringify\<close> of an array of strings\<close>

definition hex_char :: "nat \<Rightarrow> char" where
  "hex_char d = ''0123456789abcdef'' ! (d mod 16)"

definition json_escape :: "char \<Rightarrow> string" where
  "json_escape c =
     (if c = CHR 0x22 then [CHR 0x5C, CHR 0x22]
      else if c = CHR 0x5C then [CHR 0x5C, CHR 0x5C]
      else if c = CHR 0x08 then [CHR 0x5C, CHR ''b'']
      else if c = CHR 0x0C then [CHR 0x5C, CHR ''f'']
      else if c = CHR 0x0A then [CHR 0x5C, CHR ''n'']
      else if c = CHR 0x0D then [CHR 0x5C, CHR ''r'']
      else if c = CHR 0x09 then [CHR 0x5C, CHR ''t'']
      else if (of_char c :: nat) < 32
        then [CHR 0x5C, CHR ''u'', CHR ''0'', CHR ''0'', hex_char (of_char c div 16),
              hex_char (of_char c mod 16)]
      else [c])"

definition json_quote :: "string \<Rightarrow> string" where
  "json_quote s = CHR 0x22 # concat (map json_escape s) @ [CHR 0x22]"

fun join :: "string \<Rightarrow> string list \<Rightarrow> string" where
  "join sep [] = []"
| "join sep [x] = x"
| "join sep (x # y # ys) = x @ sep @ join sep (y # ys)"

definition JSON_stringify :: "string list \<Rightarrow> string" where
  "JSON_stringify xs = ''['' @ join '','' (map json_quote xs) @ '']''"

section \<open>The client\<close>

record Client =
  this_apiUrl :: string
  this_headers :: headers

record RequestInit =
  credentials :: string
  mode :: string
  init_headers :: headers

record Client_B = Client +
  defaultFetchOptions :: RequestInit

text \<open>An option that the caller left out is \<open>None\<close>.\<close>

record BugReportClientOptions =
  apiUrl :: "string option"
  appKey :: "string option"
  appSecret :: "string option"
  headers :: "headers option"

record BugReportClientOptions_A = BugReportClientOptions +
  appName :: "string option"

definition falsy :: "string option \<Rightarrow> bool" where
  \<comment> \<open>\<^verbatim>\<open>!x\<close> for a string or \<^verbatim>\<open>undefined\<close>\<close>
  "falsy x = (case x of None \<Rightarrow> True | Some s \<Rightarrow> s = [])"

definition spread :: "headers option \<Rightarrow> headers" where
  \<comment> \<open>\<^verbatim>\<open>options.headers ?? {}\<close>\<close>
  "spread h = (case h of None \<Rightarrow> Map.empty | Some m \<Rightarrow> m)"

subsection \<open>Constructors\<close>

definition BugReportClient_A :: "BugReportClientOptions_A \<Rightarrow> error + Client" where
  "BugReportClient_A options =
     (if falsy (apiUrl options) then Inl (Error ''API URL is required'')
      else if falsy (appName options) \<or> falsy (appKey options) \<or> falsy (appSecret options)
        then Inl (Error ''App credentials (App Name, App Key, App Secret) are required'')
      else Inr \<lparr>this_apiUrl = the (apiUrl options),
                this_headers =
                  [''Content-Type'' \<mapsto> ''application/json'',
                   ''X-App-Name'' \<mapsto> the (appName options),
                   ''X-App-Key'' \<mapsto> the (appKey options),
                   ''Authorization'' \<mapsto> ''Bearer '' @ the (appSecret options)]
                  ++ spread (headers options)\<rparr>)"

definition BugReportClient_B :: "BugReportClientOptions \<Rightarrow> error + Client_B" where
  "BugReportClient_B options =
     (if falsy (apiUrl options) then Inl (Error ''API URL is required'')
      else if falsy (appKey options) \<or> falsy (appSecret options)
        then Inl (Error ''App credentials (App Key, App Secret) are required'')
      else
        let hs = [''Content-Type'' \<mapsto> ''application/json'',
                  ''X-App-Key'' \<mapsto> the (appKey options),
                  ''Authorization'' \<mapsto> ''Bearer '' @ the (appSecret options)]
                 ++ spread (headers options)
        in Inr \<lparr>this_apiUrl = the (apiUrl options), this_headers = hs,
                  defaultFetchOptions =
                    \<lparr>credentials = ''include'', mode = ''cors'', init_headers = hs\<rparr>\<rparr>)"

definition BugReportClient_C :: "BugReportClientOptions \<Rightarrow> error + Client" where
  "BugReportClient_C options =
     (if falsy (apiUrl options) then Inl (Error ''API URL is required'')
      else if falsy (appKey options) \<or> falsy (appSecret options)
        then Inl (Error ''App credentials (App Name, App Key, App Secret) are required'')
      else Inr \<lparr>this_apiUrl = the (apiUrl options),
                this_headers =
                  [''Content-Type'' \<mapsto> ''application/json'',
                   ''X-App-Key'' \<mapsto> the (appKey options),
                   ''Authorization'' \<mapsto> ''Bearer '' @ the (appSecret options)]
                  ++ spread (headers options)\<rparr>)"

definition string_url ::
  "(string \<Rightarrow> bool) \<Rightarrow> zod_key list \<Rightarrow> string option
   \<Rightarrow> ZodError" where
  \<comment> \<open>\<^verbatim>\<open>z.string().url()\<close>; whether a string is a URL is the platform's URL parser's
      to say, the parameter \<open>is_url\<close>\<close>
  "string_url is_url path x =
     (case x of None \<Rightarrow> [ZodIssue ''invalid_type'' path]
      | Some s \<Rightarrow> if is_url s then [] else [ZodIssue ''invalid_string'' path])"

definition string_min_required ::
  "nat \<Rightarrow> zod_key list \<Rightarrow> string option \<Rightarrow> ZodError" where
  \<comment> \<open>\<^verbatim>\<open>z.string().min(n)\<close> on a field that may be missing\<close>
  "string_min_required n path x =
     (case x of None \<Rightarrow> [ZodIssue ''invalid_type'' path] | Some s \<Rightarrow> string_min n path s)"

definition AppCredentialsSchema ::
  "(string \<Rightarrow> bool) \<Rightarrow> string option \<Rightarrow> string option
   \<Rightarrow> string option \<Rightarrow> ZodError" where
  \<comment> \<open>\<^verbatim>\<open>src/src/client/index.ts\<close> lines 584-588, on the object
      \<^verbatim>\<open>{appUrl, appKey, appSecret}\<close>\<close>
  "AppCredentialsSchema is_url appUrl_field appKey_field appSecret_field =
     string_url is_url [Key ''appUrl''] appUrl_field
     @ string_min_required 5 [Key ''appKey''] appKey_field
     @ string_min_required 5 [Key ''appSecret''] appSecret_field"

definition BugReportClient_D ::
  "(string \<Rightarrow> bool) \<Rightarrow> BugReportClientOptions \<Rightarrow> error + Client" where
  "BugReportClient_D is_url options =
     (if AppCredentialsSchema is_url (apiUrl options) (appKey options) (appSecret options) \<noteq> []
        then Inl (AppCredentialTypeError
                    (AppCredentialsSchema is_url (apiUrl options) (appKey options) (appSecret options)))
      else Inr \<lparr>this_apiUrl = the (apiUrl options),
                this_headers =
                  [''X-App-Key'' \<mapsto> the (appKey options),
                   ''Authorization'' \<mapsto> ''Bearer '' @ the (appSecret options)]
                  ++ spread (headers options)\<rparr>)"

subsection \<open>Mapping a response\<close>

definition createdAt_or_now ::
  "'z BugReport_scheme \<Rightarrow> int \<Rightarrow> 'z BugReport_scheme" where
  \<comment> \<open>\<^verbatim>\<open>{...report, createdAt: report.createdAt ?? new Date()}\<close>, the clock reading
      \<open>now\<close>\<close>
  "createdAt_or_now report now =
     report\<lparr>createdAt := Some (case createdAt report of None \<Rightarrow> Date now | Some d \<Rightarrow> d)\<rparr>"

definition api_error_unless_ok ::
  "nat \<Rightarrow> error + 'y ApiErrorResponse_scheme
   \<Rightarrow> 'y ApiErrorResponse_scheme outcome" where
  \<comment> \<open>the block
      \<^verbatim>\<open>if (!response.ok) { const data = await response.json(); throw new ApiBugReportError(data.meta); } return response.json();\<close>
      that the methods of versions A, C and D other than \<^verbatim>\<open>getBugReport\<close> repeat\<close>
  "api_error_unless_ok st json =
     (if \<not> ok st then
        (case json of Inl e \<Rightarrow> Rejected e
         | Inr errorData \<Rightarrow> Rejected (new_ApiBugReportError (meta errorData)))
      else (case json of Inl e \<Rightarrow> Rejected e | Inr d \<Rightarrow> Resolved d))"

definition handleResponse ::
  "nat \<Rightarrow> error + 'y ApiErrorResponse_scheme
   \<Rightarrow> 'y ApiErrorResponse_scheme outcome" where
  \<comment> \<open>the private method of version B; \<^verbatim>\<open>getBugReport\<close> of A, C and D has the same
      text inline\<close>
  "handleResponse st json =
     (if \<not> ok st then
        (case json of Inl e \<Rightarrow> Rejected e
         | Inr errorData \<Rightarrow>
             if st = 404 then Rejected (new_NotFoundBugReportError (meta errorData))
             else Rejected (new_ApiBugReportError (meta errorData)))
      else (case json of Inl e \<Rightarrow> Rejected e | Inr d \<Rightarrow> Resolved d))"

definition upload_load ::
  "nat \<Rightarrow> error + 'y ApiErrorResponse_scheme
   \<Rightarrow> 'y ApiErrorResponse_scheme outcome" where
  \<comment> \<open>the \<^verbatim>\<open>load\<close> listener of \<^verbatim>\<open>submitBugReportWithFileProgress\<close> (B, C and D). With a
      2xx status \<^verbatim>\<open>JSON.parse\<close> runs outside any \<^verbatim>\<open>try\<close>: when it throws, the listener
      ends and the promise is never settled\<close>
  "upload_load st json =
     (if 200 \<le> st \<and> st < 300 then (case json of Inl e \<Rightarrow> Pending | Inr d \<Rightarrow> Resolved d)
      else (case json of
              Inl e \<Rightarrow> Rejected (StatusError ''Upload failed with status '' st)
            | Inr errorData \<Rightarrow> Rejected (new_ApiBugReportError (meta errorData))))"

definition formData ::
  "'z BugReportFile_scheme \<Rightarrow> (string \<times> form_value) list" where
  "formData report =
     [(''title'', Text (title report)),
      (''description'', Text (description report)),
      (''severity'', Text (severity report)),
      (''tags'', Text (JSON_stringify (tags report)))]
     @ map (\<lambda>f. (''file'', Blob f)) (report_file report)"

definition progress_onload ::
  "nat \<Rightarrow> error + 'y ApiErrorResponse_scheme
   \<Rightarrow> 'y ApiErrorResponse_scheme outcome" where
  \<comment> \<open>\<^verbatim>\<open>xhr.onload\<close> of \<^verbatim>\<open>submitBugReportWithProgress\<close>, version D\<close>
  "progress_onload st json =
     (if 200 \<le> st \<and> st < 300 then
        (case json of Inl e \<Rightarrow> Rejected (Error ''Failed to parse server response'')
         | Inr d \<Rightarrow> Resolved d)
      else (case json of
              Inl e \<Rightarrow> Rejected (StatusError ''Server returned status '' st)
            | Inr errorData \<Rightarrow> Rejected (new_ApiBugReportError (meta errorData))))"

subsection \<open>Operations\<close>

text \<open>
  Every operation takes the client object \<open>this\<close>, its arguments and the network
  (\<open>fetch\<close> or \<open>xhr\<close>: the reply to each request), and returns a run: how its promise
  ends, the requests it sent, and the client object afterwards. The submissions that read
  the clock take its reading \<open>now\<close>. The schema \<^verbatim>\<open>BugReportSchema\<close> that a client
  imports is an argument, since the repository has two versions of it. The progress
  callback only observes the upload and is left out. A request without a body has the body
  type \<open>unit\<close>.
\<close>

subsubsection \<open>Version A\<close>

definition submitBugReport_A ::
  "('z BugReport_scheme \<Rightarrow> ZodError) \<Rightarrow> Client
   \<Rightarrow> 'z BugReport_scheme \<Rightarrow> int
   \<Rightarrow> ('z BugReport_scheme Request \<Rightarrow> 'y ApiErrorResponse_scheme reply)
   \<Rightarrow> ('z BugReport_scheme, 'y ApiErrorResponse_scheme, Client) run" where
  "submitBugReport_A BugReportSchema this report now fetch =
     (if BugReportSchema report \<noteq> [] then
        \<lparr>outcome = Rejected (InvalidBugReportData (BugReportSchema report)),
         sent = [], client = this\<rparr>
      else
        let request =
              \<lparr>transport = Fetch None None,
               url = this_apiUrl this @ ''/bugs/reports'',
               http_method = ''POST'',
               req_headers = this_headers this,
               body = JsonText (createdAt_or_now report now)\<rparr>
        in \<lparr>outcome = (case fetch request of
                          NetworkFailure e \<Rightarrow> Rejected e
                        | Responded st json \<Rightarrow> api_error_unless_ok st json),
            sent = [request], client = this\<rparr>)"

definition submitBugReportWithProgress_A ::
  "('z BugReport_scheme \<Rightarrow> ZodError) \<Rightarrow> Client
   \<Rightarrow> 'z BugReport_scheme \<Rightarrow> int
   \<Rightarrow> ('z BugReport_scheme Request \<Rightarrow> 'y ApiErrorResponse_scheme reply)
   \<Rightarrow> ('z BugReport_scheme, 'y ApiErrorResponse_scheme, Client) run" where
  "submitBugReportWithProgress_A BugReportSchema this report now fetch =
     (if BugReportSchema report \<noteq> [] then
        \<lparr>outcome = Rejected (InvalidBugReportData (BugReportSchema report)),
         sent = [], client = this\<rparr>
      else
        let request =
              \<lparr>transport = Fetch None None,
               url = this_apiUrl this @ ''/bugs/reports'',
               http_method = ''POST'',
               req_headers = this_headers this,
               body = JsonStream (createdAt_or_now report now)\<rparr>
        in \<lparr>outcome = (case fetch request of
                          NetworkFailure e \<Rightarrow> Rejected e
                        | Responded st json \<Rightarrow> api_error_unless_ok st json),
            sent = [request], client = this\<rparr>)"

definition getBugReport_A ::
  "Client \<Rightarrow> string
   \<Rightarrow> (unit Request \<Rightarrow> 'y ApiErrorResponse_scheme reply)
   \<Rightarrow> (unit, 'y ApiErrorResponse_scheme, Client) run" where
  \<comment> \<open>lines 277-294: the text of \<open>handleResponse\<close>, inline\<close>
  "getBugReport_A this bug_id fetch =
     (let request =
           \<lparr>transport = Fetch None None,
            url = this_apiUrl this @ ''/bugs/'' @ bug_id,
            http_method = ''GET'',
            req_headers = this_headers this,
            body = NoBody\<rparr>
        in \<lparr>outcome = (case fetch request of
                          NetworkFailure e \<Rightarrow> Rejected e
                        | Responded st json \<Rightarrow> handleResponse st json),
            sent = [request], client = this\<rparr>)"

definition getBugTags_A ::
  "Client \<Rightarrow> (unit Request \<Rightarrow> 'y ApiErrorResponse_scheme reply)
   \<Rightarrow> (unit, 'y ApiErrorResponse_scheme, Client) run" where
  "getBugTags_A this fetch =
     (let request =
           \<lparr>transport = Fetch None None,
            url = this_apiUrl this @ ''/bugs/tags'',
            http_method = ''GET'',
            req_headers = this_headers this,
            body = NoBody\<rparr>
        in \<lparr>outcome = (case fetch request of
                          NetworkFailure e \<Rightarrow> Rejected e
                        | Responded st json \<Rightarrow> api_error_unless_ok st json),
            sent = [request], client = this\<rparr>)"

subsubsection \<open>Version B\<close>

definition submitBugReport_B ::
  "('z BugReport_scheme \<Rightarrow> ZodError) \<Rightarrow> Client_B
   \<Rightarrow> 'z BugReport_scheme \<Rightarrow> int
   \<Rightarrow> ('z BugReport_scheme Request \<Rightarrow> 'y ApiErrorResponse_scheme reply)
   \<Rightarrow> ('z BugReport_scheme, 'y ApiErrorResponse_scheme, Client_B) run" where
  "submitBugReport_B BugReportSchema this report now fetch =
     (if BugReportSchema report \<noteq> [] then
        \<lparr>outcome = Rejected (InvalidBugReportData (BugReportSchema report)),
         sent = [], client = this\<rparr>
      else
        let request =
              \<lparr>transport = Fetch (Some (credentials (defaultFetchOptions this)))
                          (Some (mode (defaultFetchOptions this))),
               url = this_apiUrl this @ ''/bugs/reports'',
               http_method = ''POST'',
               req_headers = init_headers (defaultFetchOptions this),
               body = JsonText (createdAt_or_now report now)\<rparr>
        in \<lparr>outcome = (case fetch request of
                          NetworkFailure e \<Rightarrow> Rejected e
                        | Responded st json \<Rightarrow> handleResponse st json),
            sent = [request], client = this\<rparr>)"

definition submitBugReportWithFile_B ::
  "Client_B \<Rightarrow> 'z BugReportFile_scheme
   \<Rightarrow> ('z BugReportFile_scheme Request \<Rightarrow> 'y ApiErrorResponse_scheme reply)
   \<Rightarrow> ('z BugReportFile_scheme, 'y ApiErrorResponse_scheme, Client_B) run" where
  "submitBugReportWithFile_B this report fetch =
     (if BugReportFileSchema report \<noteq> [] then
        \<lparr>outcome = Rejected (InvalidBugReportData (BugReportFileSchema report)),
         sent = [], client = this\<rparr>
      else
        let request =
              \<lparr>transport = Fetch (Some (credentials (defaultFetchOptions this)))
                          (Some (mode (defaultFetchOptions this))),
               url = this_apiUrl this @ ''/bugs/reports'',
               http_method = ''POST'',
               req_headers = (this_headers this)(''Content-Type'' := None),
               body = FormData (formData report)\<rparr>
        in \<lparr>outcome = (case fetch request of
                          NetworkFailure e \<Rightarrow> Rejected e
                        | Responded st json \<Rightarrow> handleResponse st json),
            sent = [request], client = this\<rparr>)"

definition submitBugReportWithFileProgress_B ::
  "Client_B \<Rightarrow> 'z BugReportFile_scheme
   \<Rightarrow> ('z BugReportFile_scheme Request \<Rightarrow> 'y ApiErrorResponse_scheme reply)
   \<Rightarrow> ('z BugReportFile_scheme, 'y ApiErrorResponse_scheme, Client_B) run" where
  "submitBugReportWithFileProgress_B this report xhr =
     (if BugReportFileSchema report \<noteq> [] then
        \<lparr>outcome = Rejected (InvalidBugReportData (BugReportFileSchema report)),
         sent = [], client = this\<rparr>
      else
        let request =
              \<lparr>transport = XMLHttpRequest True,
               url = this_apiUrl this @ ''/bugs/reports'',
               http_method = ''POST'',
               req_headers = (this_headers this)(''Content-Type'' := None),
               body = FormData (formData report)\<rparr>
        in \<lparr>outcome = (case xhr request of
                          NetworkFailure e \<Rightarrow> Rejected (Error ''Network error occurred'')
                        | Responded st json \<Rightarrow> upload_load st json),
            sent = [request], client = this\<rparr>)"

definition getBugReport_B ::
  "Client_B \<Rightarrow> string
   \<Rightarrow> (unit Request \<Rightarrow> 'y ApiErrorResponse_scheme reply)
   \<Rightarrow> (unit, 'y ApiErrorResponse_scheme, Client_B) run" where
  "getBugReport_B this bug_id fetch =
     (let request =
           \<lparr>transport = Fetch (Some (credentials (defaultFetchOptions this)))
                          (Some (mode (defaultFetchOptions this))),
            url = this_apiUrl this @ ''/bugs/'' @ bug_id,
            http_method = ''GET'',
            req_headers = init_headers (defaultFetchOptions this),
            body = NoBody\<rparr>
        in \<lparr>outcome = (case fetch request of
                          NetworkFailure e \<Rightarrow> Rejected e
                        | Responded st json \<Rightarrow> handleResponse st json),
            sent = [request], client = this\<rparr>)"

definition getBugTags_B ::
  "Client_B \<Rightarrow> (unit Request \<Rightarrow> 'y ApiErrorResponse_scheme reply)
   \<Rightarrow> (unit, 'y ApiErrorResponse_scheme, Client_B) run" where
  "getBugTags_B this fetch =
     (let request =
           \<lparr>transport = Fetch (Some (credentials (defaultFetchOptions this)))
                          (Some (mode (defaultFetchOptions this))),
            url = this_apiUrl this @ ''/bugs/tags'',
            http_method = ''GET'',
            req_headers = init_headers (defaultFetchOptions this),
            body = NoBody\<rparr>
        in \<lparr>outcome = (case fetch request of
                          NetworkFailure e \<Rightarrow> Rejected e
                        | Responded st json \<Rightarrow> handleResponse st json),
            sent = [request], client = this\<rparr>)"

subsubsection \<open>Version C\<close>

definition submitBugReport_C ::
  "('z BugReport_scheme \<Rightarrow> ZodError) \<Rightarrow> Client
   \<Rightarrow> 'z BugReport_scheme \<Rightarrow> int
   \<Rightarrow> ('z BugReport_scheme Request \<Rightarrow> 'y ApiErrorResponse_scheme reply)
   \<Rightarrow> ('z BugReport_scheme, 'y ApiErrorResponse_scheme, Client) run" where
  "submitBugReport_C BugReportSchema this report now fetch =
     (if BugReportSchema report \<noteq> [] then
        \<lparr>outcome = Rejected (InvalidBugReportData (BugReportSchema report)),
         sent = [], client = this\<rparr>
      else
        let request =
              \<lparr>transport = Fetch None None,
               url = this_apiUrl this @ ''/api/bugs/reports'',
               http_method = ''POST'',
               req_headers = this_headers this,
               body = JsonText (createdAt_or_now report now)\<rparr>
        in \<lparr>outcome = (case fetch request of
                          NetworkFailure e \<Rightarrow> Rejected e
                        | Responded st json \<Rightarrow> api_error_unless_ok st json),
            sent = [request], client = this\<rparr>)"

definition submitBugReportWithProgress_C ::
  "('z BugReport_scheme \<Rightarrow> ZodError) \<Rightarrow> Client
   \<Rightarrow> 'z BugReport_scheme \<Rightarrow> int
   \<Rightarrow> ('z BugReport_scheme Request \<Rightarrow> 'y ApiErrorResponse_scheme reply)
   \<Rightarrow> ('z BugReport_scheme, 'y ApiErrorResponse_scheme, Client) run" where
  "submitBugReportWithProgress_C BugReportSchema this report now fetch =
     (if BugReportSchema report \<noteq> [] then
        \<lparr>outcome = Rejected (InvalidBugReportData (BugReportSchema report)),
         sent = [], client = this\<rparr>
      else
        let request =
              \<lparr>transport = Fetch None None,
               url = this_apiUrl this @ ''/api/bugs/reports'',
               http_method = ''POST'',
               req_headers = this_headers this,
               body = JsonStream (createdAt_or_now report now)\<rparr>
        in \<lparr>outcome = (case fetch request of
                          NetworkFailure e \<Rightarrow> Rejected e
                        | Responded st json \<Rightarrow> api_error_unless_ok st json),
            sent = [request], client = this\<rparr>)"

definition submitBugReportWithFile_C ::
  "Client \<Rightarrow> 'z BugReportFile_scheme
   \<Rightarrow> ('z BugReportFile_scheme Request \<Rightarrow> 'y ApiErrorResponse_scheme reply)
   \<Rightarrow> ('z BugReportFile_scheme, 'y ApiErrorResponse_scheme, Client) run" where
  "submitBugReportWithFile_C this report fetch =
     (if BugReportFileSchema report \<noteq> [] then
        \<lparr>outcome = Rejected (InvalidBugReportData (BugReportFileSchema report)),
         sent = [], client = this\<rparr>
      else
        let request =
              \<lparr>transport = Fetch None None,
               url = this_apiUrl this @ ''/api/bugs/reports'',
               http_method = ''POST'',
               req_headers = (this_headers this)(''Content-Type'' \<mapsto> ''multipart/form-data''),
               body = FormData (formData report)\<rparr>
        in \<lparr>outcome = (case fetch request of
                          NetworkFailure e \<Rightarrow> Rejected e
                        | Responded st json \<Rightarrow> api_error_unless_ok st json),
            sent = [request], client = this\<rparr>)"

definition submitBugReportWithFileProgress_C ::
  "Client \<Rightarrow> 'z BugReportFile_scheme
   \<Rightarrow> ('z BugReportFile_scheme Request \<Rightarrow> 'y ApiErrorResponse_scheme reply)
   \<Rightarrow> ('z BugReportFile_scheme, 'y ApiErrorResponse_scheme, Client) run" where
  \<comment> \<open>line 335, \<^verbatim>\<open>this.headers["Content-Type"] = "multipart/form-data"\<close>, assigns to the
      client object itself; the request then takes every entry of \<^verbatim>\<open>this.headers\<close>\<close>
  "submitBugReportWithFileProgress_C this report xhr =
     (if BugReportFileSchema report \<noteq> [] then
        \<lparr>outcome = Rejected (InvalidBugReportData (BugReportFileSchema report)),
         sent = [], client = this\<rparr>
      else
        let assigned =
              this\<lparr>this_headers :=
                     (this_headers this)(''Content-Type'' \<mapsto> ''multipart/form-data'')\<rparr>;
            request =
              \<lparr>transport = XMLHttpRequest False,
               url = this_apiUrl this @ ''/api/bugs/reports'',
               http_method = ''POST'',
               req_headers = this_headers assigned,
               body = FormData (formData report)\<rparr>
        in \<lparr>outcome = (case xhr request of
                          NetworkFailure e \<Rightarrow> Rejected (Error ''Network error occurred'')
                        | Responded st json \<Rightarrow> upload_load st json),
            sent = [request], client = assigned\<rparr>)"

definition getBugReport_C ::
  "Client \<Rightarrow> string
   \<Rightarrow> (unit Request \<Rightarrow> 'y ApiErrorResponse_scheme reply)
   \<Rightarrow> (unit, 'y ApiErrorResponse_scheme, Client) run" where
  \<comment> \<open>lines 359-376: the text of \<open>handleResponse\<close>, inline\<close>
  "getBugReport_C this bug_id fetch =
     (let request =
           \<lparr>transport = Fetch None None,
            url = this_apiUrl this @ ''/api/bugs/'' @ bug_id,
            http_method = ''GET'',
            req_headers = this_headers this,
            body = NoBody\<rparr>
        in \<lparr>outcome = (case fetch request of
                          NetworkFailure e \<Rightarrow> Rejected e
                        | Responded st json \<Rightarrow> handleResponse st json),
            sent = [request], client = this\<rparr>)"

definition getBugTags_C ::
  "Client \<Rightarrow> (unit Request \<Rightarrow> 'y ApiErrorResponse_scheme reply)
   \<Rightarrow> (unit, 'y ApiErrorResponse_scheme, Client) run" where
  "getBugTags_C this fetch =
     (let request =
           \<lparr>transport = Fetch None None,
            url = this_apiUrl this @ ''/api/bugs/tags'',
            http_method = ''GET'',
            req_headers = this_headers this,
            body = NoBody\<rparr>
        in \<lparr>outcome = (case fetch request of
                          NetworkFailure e \<Rightarrow> Rejected e
                        | Responded st json \<Rightarrow> api_error_unless_ok st json),
            sent = [request], client = this\<rparr>)"

subsubsection \<open>Version D\<close>

definition submitBugReport_D ::
  "('z BugReport_scheme \<Rightarrow> ZodError) \<Rightarrow> Client
   \<Rightarrow> 'z BugReport_scheme \<Rightarrow> int
   \<Rightarrow> ('z BugReport_scheme Request \<Rightarrow> 'y ApiErrorResponse_scheme reply)
   \<Rightarrow> ('z BugReport_scheme, 'y ApiErrorResponse_scheme, Client) run" where
  "submitBugReport_D BugReportSchema this report now fetch =
     (if BugReportSchema report \<noteq> [] then
        \<lparr>outcome = Rejected (InvalidBugReportData (BugReportSchema report)),
         sent = [], client = this\<rparr>
      else
        let request =
              \<lparr>transport = Fetch None None,
               url = this_apiUrl this @ ''/api/bugs/reports'',
               http_method = ''POST'',
               req_headers = (this_headers this)(''Content-Type'' \<mapsto> ''application/json''),
               body = JsonText (createdAt_or_now report now)\<rparr>
        in \<lparr>outcome = (case fetch request of
                          NetworkFailure e \<Rightarrow> Rejected e
                        | Responded st json \<Rightarrow> api_error_unless_ok st json),
            sent = [request], client = this\<rparr>)"

definition submitBugReportWithProgress_D ::
  "('z BugReport_scheme \<Rightarrow> ZodError) \<Rightarrow> Client
   \<Rightarrow> 'z BugReport_scheme \<Rightarrow> int
   \<Rightarrow> ('z BugReport_scheme Request \<Rightarrow> 'y ApiErrorResponse_scheme reply)
   \<Rightarrow> ('z BugReport_scheme, 'y ApiErrorResponse_scheme, Client) run" where
  "submitBugReportWithProgress_D BugReportSchema this report now xhr =
     (if BugReportSchema report \<noteq> [] then
        \<lparr>outcome = Rejected (InvalidBugReportData (BugReportSchema report)),
         sent = [], client = this\<rparr>
      else
        let request =
              \<lparr>transport = XMLHttpRequest False,
               url = this_apiUrl this @ ''/api/bugs/reports'',
               http_method = ''POST'',
               req_headers = (this_headers this)(''Content-Type'' \<mapsto> ''application/json''),
               body = JsonText (createdAt_or_now report now)\<rparr>
        in \<lparr>outcome = (case xhr request of
                          NetworkFailure e \<Rightarrow> Rejected (Error ''Network request failed'')
                        | Responded st json \<Rightarrow> progress_onload st json),
            sent = [request], client = this\<rparr>)"

definition submitBugReportWithFile_D ::
  "Client \<Rightarrow> 'z BugReportFile_scheme
   \<Rightarrow> ('z BugReportFile_scheme Request \<Rightarrow> 'y ApiErrorResponse_scheme reply)
   \<Rightarrow> ('z BugReportFile_scheme, 'y ApiErrorResponse_scheme, Client) run" where
  "submitBugReportWithFile_D this report fetch =
     (if BugReportFileSchema report \<noteq> [] then
        \<lparr>outcome = Rejected (InvalidBugReportData (BugReportFileSchema report)),
         sent = [], client = this\<rparr>
      else
        let request =
              \<lparr>transport = Fetch None None,
               url = this_apiUrl this @ ''/api/bugs/reports'',
               http_method = ''POST'',
               req_headers = this_headers this,
               body = FormData (formData report)\<rparr>
        in \<lparr>outcome = (case fetch request of
                          NetworkFailure e \<Rightarrow> Rejected e
                        | Responded st json \<Rightarrow> api_error_unless_ok st json),
            sent = [request], client = this\<rparr>)"

definition submitBugReportWithFileProgress_D ::
  "Client \<Rightarrow> 'z BugReportFile_scheme
   \<Rightarrow> ('z BugReportFile_scheme Request \<Rightarrow> 'y ApiErrorResponse_scheme reply)
   \<Rightarrow> ('z BugReportFile_scheme, 'y ApiErrorResponse_scheme, Client) run" where
  "submitBugReportWithFileProgress_D this report xhr =
     (if BugReportFileSchema report \<noteq> [] then
        \<lparr>outcome = Rejected (InvalidBugReportData (BugReportFileSchema report)),
         sent = [], client = this\<rparr>
      else
        let request =
              \<lparr>transport = XMLHttpRequest False,
               url = this_apiUrl this @ ''/api/bugs/reports'',
               http_method = ''POST'',
               req_headers = this_headers this,
               body = FormData (formData report)\<rparr>
        in \<lparr>outcome = (case xhr request of
                          NetworkFailure e \<Rightarrow> Rejected (Error ''Network error occurred'')
                        | Responded st json \<Rightarrow> upload_load st json),
            sent = [request], client = this\<rparr>)"

definition getBugReport_D ::
  "Client \<Rightarrow> string
   \<Rightarrow> (unit Request \<Rightarrow> 'y ApiErrorResponse_scheme reply)
   \<Rightarrow> (unit, 'y ApiErrorResponse_scheme, Client) run" where
  \<comment> \<open>lines 369-389: the text of \<open>handleResponse\<close>, inline\<close>
  "getBugReport_D this bug_id fetch =
     (let request =
           \<lparr>transport = Fetch None None,
            url = this_apiUrl this @ ''/api/bugs/'' @ bug_id,
            http_method = ''GET'',
            req_headers = (this_headers this)(''Content-Type'' \<mapsto> ''application/json''),
            body = NoBody\<rparr>
        in \<lparr>outcome = (case fetch request of
                          NetworkFailure e \<Rightarrow> Rejected e
                        | Responded st json \<Rightarrow> handleResponse st json),
            sent = [request], client = this\<rparr>)"

definition getBugTags_D ::
  "Client \<Rightarrow> (unit Request \<Rightarrow> 'y ApiErrorResponse_scheme reply)
   \<Rightarrow> (unit, 'y ApiErrorResponse_scheme, Client) run" where
  "getBugTags_D this fetch =
     (let request =
           \<lparr>transport = Fetch None None,
            url = this_apiUrl this @ ''/api/bugs/tags'',
            http_method = ''GET'',
            req_headers = (this_headers this)(''Content-Type'' \<mapsto> ''application/json''),
            body = NoBody\<rparr>
        in \<lparr>outcome = (case fetch request of
                          NetworkFailure e \<Rightarrow> Rejected e
                        | Responded st json \<Rightarrow> api_error_unless_ok st json),
            sent = [request], client = this\<rparr>)"

subsection \<open>Observations on a run\<close>

definition rejects_unsent :: "('r, 'b, 'c) run \<Rightarrow> error \<Rightarrow> bool" where
  \<comment> \<open>the promise rejects with the error and no request has left the client\<close>
  "rejects_unsent r e = (outcome r = Rejected e \<and> sent r = [])"

definition sent_bodies :: "('r, 'b, 'c) run \<Rightarrow> 'r Body list" where
  "sent_bodies r = map body (sent r)"

definition sent_headers :: "('r, 'b, 'c) run \<Rightarrow> headers list" where
  "sent_headers r = map req_headers (sent r)"

definition sends_keeping :: "('r, 'b, 'c) run \<Rightarrow> headers \<Rightarrow> 'c \<Rightarrow> bool" where
  \<comment> \<open>the run sent one request, under the headers \<open>hs\<close>, and left the client object
      as \<open>c\<close>\<close>
  "sends_keeping r hs c = (sent_headers r = [hs] \<and> client r = c)"

definition sent_header :: "string \<Rightarrow> ('r, 'b, 'c) run \<Rightarrow> string option list" where
  \<comment> \<open>the value of one header in each request sent\<close>
  "sent_header k r = map (\<lambda>h. h k) (sent_headers r)"

subsection \<open>Values of the test file and sample inputs\<close>

definition mockCredentials :: BugReportClientOptions_A where
  \<comment> \<open>\<^verbatim>\<open>src/src/__tests__/client.test.ts\<close> lines 17-22\<close>
  "mockCredentials =
     \<lparr>apiUrl = Some ''https://api.test.com'', appKey = Some ''test-key'',
      appSecret = Some ''test-secret'', headers = None, appName = Some ''TestApp''\<rparr>"

definition mockOptions :: BugReportClientOptions where
  \<comment> \<open>the same credentials for the versions whose options have no \<^verbatim>\<open>appName\<close>\<close>
  "mockOptions =
     \<lparr>apiUrl = Some ''https://api.test.com'', appKey = Some ''test-key'',
      appSecret = Some ''test-secret'', headers = None\<rparr>"

definition mockBugReport :: BugReport where
  \<comment> \<open>lines 24-34 of the test file, its fields \<^verbatim>\<open>image\<close> and \<^verbatim>\<open>metadata\<close> left out\<close>
  "mockBugReport =
     \<lparr>title = ''Test Bug'', description = ''This is a test bug report'', severity = ''HIGH'',
      tags = [''UI'', ''FUNCTIONALITY''], createdAt = None\<rparr>"

definition mockClient :: Client where
  \<comment> \<open>the headers that the test file expects on every request (lines 68-73)\<close>
  "mockClient =
     \<lparr>this_apiUrl = ''https://api.test.com'',
      this_headers =
        [''Content-Type'' \<mapsto> ''application/json'', ''X-App-Name'' \<mapsto> ''TestApp'',
         ''X-App-Key'' \<mapsto> ''test-key'', ''Authorization'' \<mapsto> ''Bearer test-secret'']\<rparr>"

definition mockClient_B :: Client_B where
  "mockClient_B =
     \<lparr>this_apiUrl = ''https://api.test.com'',
      this_headers =
        [''Content-Type'' \<mapsto> ''application/json'', ''X-App-Key'' \<mapsto> ''test-key'',
         ''Authorization'' \<mapsto> ''Bearer test-secret''],
      defaultFetchOptions =
        \<lparr>credentials = ''include'', mode = ''cors'',
         init_headers =
           [''Content-Type'' \<mapsto> ''application/json'', ''X-App-Key'' \<mapsto> ''test-key'',
            ''Authorization'' \<mapsto> ''Bearer test-secret'']\<rparr>\<rparr>"

definition mockClient_C :: Client where
  "mockClient_C =
     \<lparr>this_apiUrl = ''https://api.test.com'',
      this_headers =
        [''Content-Type'' \<mapsto> ''application/json'', ''X-App-Key'' \<mapsto> ''test-key'',
         ''Authorization'' \<mapsto> ''Bearer test-secret'']\<rparr>"

definition mockClient_D :: Client where
  "mockClient_D =
     \<lparr>this_apiUrl = ''https://api.test.com'',
      this_headers = [''X-App-Key'' \<mapsto> ''test-key'', ''Authorization'' \<mapsto> ''Bearer test-secret'']\<rparr>"

definition overridingHeaders :: headers where
  \<comment> \<open>the custom header of the test file (lines 222-224) and two entries that collide
      with default ones\<close>
  "overridingHeaders =
     [''X-Custom-Header'' \<mapsto> ''custom-value'', ''Authorization'' \<mapsto> ''Token abc'',
      ''Content-Type'' \<mapsto> ''text/plain'']"

definition shortKeyOptions :: BugReportClientOptions where
  \<comment> \<open>options with the four-character key of the test file (line 90) and the custom
      headers\<close>
  "shortKeyOptions =
     \<lparr>apiUrl = Some ''https://api.test.com'', appKey = Some ''test'',
      appSecret = Some ''test-secret'', headers = Some overridingHeaders\<rparr>"

definition shortKeyClient_C :: Client where
  "shortKeyClient_C =
     \<lparr>this_apiUrl = ''https://api.test.com'',
      this_headers =
        [''Content-Type'' \<mapsto> ''application/json'', ''X-App-Key'' \<mapsto> ''test'',
         ''Authorization'' \<mapsto> ''Bearer test-secret'']
        ++ overridingHeaders\<rparr>"

definition sampleUpload :: BugReportFile where
  "sampleUpload =
     \<lparr>title = ''Test Bug'', description = ''This is a test bug report'', severity = ''HIGH'',
      tags = [''UI'', ''FUNCTIONALITY''], createdAt = None,
      report_file = [\<lparr>file_name = ''screen.png'', file_type = ''image/png'', file_size = 2048\<rparr>]\<rparr>"

definition notFoundResponse :: ApiErrorResponse where
  \<comment> \<open>lines 205-211 of the test file\<close>
  "notFoundResponse = \<lparr>meta = \<lparr>code = 404, status = ''error'', message = ''Bug report not found''\<rparr>\<rparr>"

definition serverErrorResponse :: ApiErrorResponse where
  \<comment> \<open>lines 154-160 of the test file\<close>
  "serverErrorResponse =
     \<lparr>meta = \<lparr>code = 500, status = ''error'', message = ''Internal Server Error''\<rparr>\<rparr>"

definition mockResponse :: "string ApiResponse" where
  \<comment> \<open>lines 45-56 of the test file, the data reduced to the report's id\<close>
  "mockResponse =
     \<lparr>meta = \<lparr>code = 200, status = ''success'', message = ''Bug report submitted''\<rparr>, data = ''123''\<rparr>"

definition issue_codes :: "ZodError \<Rightarrow> string" where
  \<comment> \<open>a stand-in for the schema library's rendering of its issues where a concrete one is
      needed\<close>
  "issue_codes z = concat (map issue_code z)"

definition starts_with_https :: "string \<Rightarrow> bool" where
  \<comment> \<open>a stand-in for the URL parser where a concrete one is needed\<close>
  "starts_with_https s = (take 8 s = ''https://'')"

section \<open>Shared lemmas\<close>

lemmas A_defs =
  submitBugReport_A_def submitBugReportWithProgress_A_def getBugReport_A_def getBugTags_A_def

lemmas B_defs =
  submitBugReport_B_def submitBugReportWithFile_B_def submitBugReportWithFileProgress_B_def
  getBugReport_B_def getBugTags_B_def

lemmas C_defs =
  submitBugReport_C_def submitBugReportWithProgress_C_def submitBugReportWithFile_C_def
  submitBugReportWithFileProgress_C_def getBugReport_C_def getBugTags_C_def

lemmas D_defs =
  submitBugReport_D_def submitBugReportWithProgress_D_def submitBugReportWithFile_D_def
  submitBugReportWithFileProgress_D_def getBugReport_D_def getBugTags_D_def

lemmas mapper_defs = api_error_unless_ok_def handleResponse_def upload_load_def progress_onload_def

lemmas schema_defs =
  BugReportSchema_files_def BugReportSchema_metadata_def BugReportFileSchema_def string_min_def
  string_max_def enum_issues_def array_min_def date_optional_def file_refine_def BugSeverity_def
  BugTagSchema_def

lemmas mock_defs =
  mockCredentials_def mockOptions_def mockBugReport_def mockClient_def mockClient_B_def
  mockClient_C_def sampleUpload_def notFoundResponse_def serverErrorResponse_def mockResponse_def

lemma show_nat_digit: "n < 10 \<Longrightarrow> show_nat n = [digit_char n]"
  by (simp add: show_nat.simps)

lemma show_nat_step: "10 \<le> n \<Longrightarrow> show_nat n = show_nat (n div 10) @ [digit_char (n mod 10)]"
  by (simp add: show_nat.simps)

lemma decimal_404: "decimal 404 = ''404''"
  by (simp add: decimal_def show_nat_step show_nat_digit digit_char_def)

lemma decimal_500: "decimal 500 = ''500''"
  by (simp add: decimal_def show_nat_step show_nat_digit digit_char_def)

lemma Number_toString_safe:
  "\<bar>n\<bar> \<le> 9007199254740991 \<Longrightarrow> Number_toString beyond n = decimal n"
  by (simp add: Number_toString_def)

lemma status_2xx_ok: "(200 \<le> st \<and> st < 300) \<longleftrightarrow> ok st"
  by (auto simp: ok_def)

lemma array_issues_enum_empty:
  "array_issues (enum_issues options) path i xs = [] \<longleftrightarrow> set xs \<subseteq> set options"
  by (induction xs arbitrary: i) (auto simp: enum_issues_def)

lemma date_optional_empty: "date_optional path d = [] \<longleftrightarrow> d \<noteq> Some Invalid_Date"
  by (auto simp: date_optional_def split: option.splits Date.splits)

lemma mockBugReport_valid:
  "BugReportSchema_files mockBugReport = []" "BugReportSchema_metadata mockBugReport = []"
  by (simp_all add: schema_defs mockBugReport_def)

lemma sampleUpload_valid: "BugReportFileSchema sampleUpload = []"
  by (simp add: schema_defs sampleUpload_def)

lemma mockClient_constructed:
  "BugReportClient_A mockCredentials = Inr mockClient"
  "BugReportClient_B mockOptions = Inr mockClient_B"
  "BugReportClient_C mockOptions = Inr mockClient_C"
  by (simp_all add: BugReportClient_A_def BugReportClient_B_def BugReportClient_C_def falsy_def
        spread_def mock_defs Let_def)

lemma mockClient_D_constructed:
  "BugReportClient_D starts_with_https mockOptions = Inr mockClient_D"
  by (simp add: BugReportClient_D_def AppCredentialsSchema_def string_url_def
        string_min_required_def string_min_def starts_with_https_def spread_def mockOptions_def
        mockClient_D_def)

lemma overridden_client_constructed:
  "BugReportClient_A (mockCredentials\<lparr>headers := Some overridingHeaders\<rparr>)
     = Inr (mockClient\<lparr>this_headers := this_headers mockClient ++ overridingHeaders\<rparr>)"
  "BugReportClient_B (mockOptions\<lparr>headers := Some overridingHeaders\<rparr>)
     = Inr (mockClient_B\<lparr>this_headers := this_headers mockClient_B ++ overridingHeaders,
             defaultFetchOptions := (defaultFetchOptions mockClient_B)
               \<lparr>init_headers := this_headers mockClient_B ++ overridingHeaders\<rparr>\<rparr>)"
  "BugReportClient_C (mockOptions\<lparr>headers := Some overridingHeaders\<rparr>)
     = Inr (mockClient_C\<lparr>this_headers := this_headers mockClient_C ++ overridingHeaders\<rparr>)"
  "BugReportClient_D starts_with_https (mockOptions\<lparr>headers := Some overridingHeaders\<rparr>)
     = Inr (mockClient_D\<lparr>this_headers := this_headers mockClient_D ++ overridingHeaders\<rparr>)"
  by (simp_all add: BugReportClient_A_def BugReportClient_B_def BugReportClient_C_def
        BugReportClient_D_def AppCredentialsSchema_def string_url_def string_min_required_def
        string_min_def starts_with_https_def falsy_def spread_def mock_defs mockClient_D_def
        Let_def)

lemma shortKeyClient_constructed: "BugReportClient_C shortKeyOptions = Inr shortKeyClient_C"
  by (simp add: BugReportClient_C_def falsy_def spread_def shortKeyOptions_def
        shortKeyClient_C_def)

text \<open>
  The two error cases of the test file (lines 149-165 and 200-217): \<^verbatim>\<open>getBugReport\<close>
  rejects with the messages that the test expects.
\<close>

lemma test_getBugReport_500:
  "outcome (getBugReport_A mockClient ''123'' (always (Responded 500 (Inr serverErrorResponse))))
   = Rejected (ApiBugReportError 500 ''Internal Server Error'')"
  "error_message beyond zod (ApiBugReportError 500 ''Internal Server Error'')
   = ''API Error [500]: Internal Server Error''"
  by (simp_all add: getBugReport_A_def handleResponse_def ok_def new_ApiBugReportError_def
        serverErrorResponse_def Number_toString_safe decimal_500)

lemma test_getBugReport_404:
  "outcome (getBugReport_A mockClient ''123'' (always (Responded 404 (Inr notFoundResponse))))
   = Rejected (NotFoundBugReportError 404 ''Bug report not found'')"
  "error_message beyond zod (NotFoundBugReportError 404 ''Bug report not found'')
   = ''Not Found Error [404]: Bug report not found''"
  by (simp_all add: getBugReport_A_def handleResponse_def ok_def new_NotFoundBugReportError_def
        notFoundResponse_def Number_toString_safe decimal_404)

text \<open>
  The requests that the test file expects (lines 66-75 and 139-147), and the constructor
  calls that it expects to throw (lines 84-114).
\<close>

lemma test_submitBugReport_request:
  "sent (submitBugReport_A BugReportSchema_metadata mockClient mockBugReport now fetch)
   = [\<lparr>transport = Fetch None None, url = ''https://api.test.com/bugs/reports'',
        http_method = ''POST'', req_headers = this_headers mockClient,
        body = JsonText (mockBugReport\<lparr>createdAt := Some (Date now)\<rparr>)\<rparr>]"
  by (simp add: submitBugReport_A_def mockBugReport_valid Let_def createdAt_or_now_def)
    (simp add: mockClient_def mockBugReport_def)

lemma test_getBugReport_request:
  "sent (getBugReport_A mockClient ''123'' fetch)
   = [\<lparr>transport = Fetch None None, url = ''https://api.test.com/bugs/123'',
        http_method = ''GET'', req_headers = this_headers mockClient, body = NoBody\<rparr>]"
  by (simp add: getBugReport_A_def Let_def mockClient_def)

lemma test_credentials_not_provided:
  "BugReportClient_A (mockCredentials\<lparr>appName := Some []\<rparr>)
   = Inl (Error ''App credentials (App Name, App Key, App Secret) are required'')"
  "BugReportClient_A (mockCredentials\<lparr>appKey := Some []\<rparr>)
   = Inl (Error ''App credentials (App Name, App Key, App Secret) are required'')"
  "BugReportClient_A (mockCredentials\<lparr>appSecret := Some []\<rparr>)
   = Inl (Error ''App credentials (App Name, App Key, App Secret) are required'')"
  by (simp_all add: BugReportClient_A_def falsy_def mockCredentials_def)

lemma JSON_stringify_tags:
  "JSON_stringify [''UI'', ''FUNCTIONALITY'']
   = [CHR ''['', CHR 0x22] @ ''UI'' @ [CHR 0x22, CHR '','', CHR 0x22] @ ''FUNCTIONALITY''
     @ [CHR 0x22, CHR '']'']"
  by (simp add: JSON_stringify_def json_quote_def json_escape_def)

section \<open>Properties\<close>

subsection \<open>C1: mapping a response that is not 2xx\<close>

text \<open>
  C1 claims that every operation throws the not-found error on a 404 and the generic API
  error on any other status outside 2xx. As stated this fails: \<^verbatim>\<open>submitBugReport\<close> of
  version A answers a 404 with the generic API error.
\<close>

theorem submitBugReport_404_is_ApiBugReportError:
  "outcome (submitBugReport_A BugReportSchema_metadata mockClient mockBugReport 0
              (always (Responded 404 (Inr notFoundResponse))))
     = Rejected (ApiBugReportError 404 ''Bug report not found'')
   \<and> error_name (ApiBugReportError 404 ''Bug report not found'') = ''ApiBugReportError''
   \<and> outcome (submitBugReport_A BugReportSchema_metadata mockClient mockBugReport 0
              (always (Responded 404 (Inr notFoundResponse))))
     \<noteq> Rejected (new_NotFoundBugReportError (meta notFoundResponse))"
  by (simp add: submitBugReport_A_def mockBugReport_valid api_error_unless_ok_def ok_def
        new_ApiBugReportError_def new_NotFoundBugReportError_def notFoundResponse_def)

text \<open>
  C1, amended. When a response with a status outside 2xx arrives and its body parses to an
  error envelope \<open>d\<close>: \<^verbatim>\<open>getBugReport\<close> of every version, and every operation of
  version B that goes through \<^verbatim>\<open>handleResponse\<close>, reject with the not-found error
  on 404 and with the generic API error on any other status; \<^verbatim>\<open>submitBugReport\<close>,
  \<^verbatim>\<open>submitBugReportWithProgress\<close>, \<^verbatim>\<open>submitBugReportWithFile\<close> and \<^verbatim>\<open>getBugTags\<close> of
  versions A, C and D reject with the generic API error on every such status, 404
  included. Either error is built from \<^verbatim>\<open>meta.code\<close> and \<^verbatim>\<open>meta.message\<close> of the body:
  its message is the template of its class filled with the code, as the platform renders
  that number, and the message. For a code within the safe integers the rendering is the
  decimal numeral of the code.
\<close>

theorem non_2xx_response_rejects_with_typed_error:
  fixes d :: "'y ApiErrorResponse_scheme"
    and report :: "'z BugReport_scheme" and upload :: "'w BugReportFile_scheme"
  assumes "\<not> ok st" and "BugReportSchema report = []" and "BugReportFileSchema upload = []"
    and "api = ApiBugReportError (code (meta d)) (message (meta d))"
    and "not_found = NotFoundBugReportError (code (meta d)) (message (meta d))"
  shows
    "outcome (submitBugReport_A BugReportSchema this report now (always (Responded st (Inr d))))
       = Rejected api
     \<and> outcome (submitBugReportWithProgress_A BugReportSchema this report now (always (Responded st (Inr d))))
       = Rejected api
     \<and> outcome (getBugReport_A this bug_id (always (Responded st (Inr d))))
       = Rejected (if st = 404 then not_found else api)
     \<and> outcome (getBugTags_A this (always (Responded st (Inr d))))
       = Rejected api
     \<and> outcome (submitBugReport_B BugReportSchema thisB report now (always (Responded st (Inr d))))
       = Rejected (if st = 404 then not_found else api)
     \<and> outcome (submitBugReportWithFile_B thisB upload (always (Responded st (Inr d))))
       = Rejected (if st = 404 then not_found else api)
     \<and> outcome (getBugReport_B thisB bug_id (always (Responded st (Inr d))))
       = Rejected (if st = 404 then not_found else api)
     \<and> outcome (getBugTags_B thisB (always (Responded st (Inr d))))
       = Rejected (if st = 404 then not_found else api)
     \<and> outcome (submitBugReport_C BugReportSchema this report now (always (Responded st (Inr d))))
       = Rejected api
     \<and> outcome (submitBugReportWithProgress_C BugReportSchema this report now (always (Responded st (Inr d))))
       = Rejected api
     \<and> outcome (submitBugReportWithFile_C this upload (always (Responded st (Inr d))))
       = Rejected api
     \<and> outcome (getBugReport_C this bug_id (always (Responded st (Inr d))))
       = Rejected (if st = 404 then not_found else api)
     \<and> outcome (getBugTags_C this (always (Responded st (Inr d))))
       = Rejected api
     \<and> outcome (submitBugReport_D BugReportSchema this report now (always (Responded st (Inr d))))
       = Rejected api
     \<and> outcome (submitBugReportWithProgress_D BugReportSchema this report now (always (Responded st (Inr d))))
       = Rejected api
     \<and> outcome (submitBugReportWithFile_D this upload (always (Responded st (Inr d))))
       = Rejected api
     \<and> outcome (getBugReport_D this bug_id (always (Responded st (Inr d))))
       = Rejected (if st = 404 then not_found else api)
     \<and> outcome (getBugTags_D this (always (Responded st (Inr d))))
       = Rejected api
     \<and> error_message beyond zod api
       = ''API Error ['' @ Number_toString beyond (code (meta d)) @ '']: '' @ message (meta d)
     \<and> error_message beyond zod not_found
       = ''Not Found Error ['' @ Number_toString beyond (code (meta d)) @ '']: ''
         @ message (meta d)
     \<and> (\<bar>code (meta d)\<bar> \<le> 9007199254740991 \<longrightarrow>
         error_message beyond zod api
         = ''API Error ['' @ decimal (code (meta d)) @ '']: '' @ message (meta d)
         \<and> error_message beyond zod not_found
           = ''Not Found Error ['' @ decimal (code (meta d)) @ '']: '' @ message (meta d))"
  using assms
  by (simp add: A_defs B_defs C_defs D_defs api_error_unless_ok_def handleResponse_def
        progress_onload_def status_2xx_ok new_ApiBugReportError_def new_NotFoundBugReportError_def
        Number_toString_def)

theorem non_2xx_response_rejects_with_typed_error_witness:
  "\<not> ok 404 \<and> BugReportSchema_files mockBugReport = [] \<and> BugReportFileSchema sampleUpload = []
   \<and> \<bar>code (meta notFoundResponse)\<bar> \<le> 9007199254740991
   \<and> outcome (getBugReport_C mockClient_C ''123'' (always (Responded 404 (Inr notFoundResponse))))
       = Rejected (NotFoundBugReportError 404 ''Bug report not found'')
   \<and> outcome (submitBugReportWithFile_B mockClient_B sampleUpload
                 (always (Responded 404 (Inr notFoundResponse))))
       = Rejected (NotFoundBugReportError 404 ''Bug report not found'')
   \<and> outcome (getBugTags_C mockClient_C (always (Responded 404 (Inr notFoundResponse))))
       = Rejected (ApiBugReportError 404 ''Bug report not found'')
   \<and> error_message decimal issue_codes (NotFoundBugReportError 404 ''Bug report not found'')
       = ''Not Found Error [404]: Bug report not found''
   \<and> error_message decimal issue_codes (ApiBugReportError 404 ''Bug report not found'')
       = ''API Error [404]: Bug report not found''"
proof -
  have not_ok: "\<not> ok 404"
    by (simp add: ok_def)
  have api: "ApiBugReportError 404 ''Bug report not found''
             = ApiBugReportError (code (meta notFoundResponse)) (message (meta notFoundResponse))"
    by (simp add: notFoundResponse_def)
  have not_found: "NotFoundBugReportError 404 ''Bug report not found''
             = NotFoundBugReportError (code (meta notFoundResponse))
                 (message (meta notFoundResponse))"
    by (simp add: notFoundResponse_def)
  have safe: "\<bar>code (meta notFoundResponse)\<bar> \<le> 9007199254740991"
    by (simp add: notFoundResponse_def)
  have rendered: "''API Error ['' @ decimal (code (meta notFoundResponse)) @ '']: ''
                @ message (meta notFoundResponse)
              = ''API Error [404]: Bug report not found''"
      "''Not Found Error ['' @ decimal (code (meta notFoundResponse)) @ '']: ''
                @ message (meta notFoundResponse)
              = ''Not Found Error [404]: Bug report not found''"
    by (simp_all add: notFoundResponse_def decimal_404)
  note all = non_2xx_response_rejects_with_typed_error
      [where st = 404 and d = notFoundResponse and BugReportSchema = BugReportSchema_files
         and report = mockBugReport and upload = sampleUpload and this = mockClient_C
         and thisB = mockClient_B and now = 0 and bug_id = "''123''"
         and beyond = decimal and zod = issue_codes,
       OF not_ok mockBugReport_valid(1) sampleUpload_valid api not_found]
  have outcomes:
    "outcome (getBugReport_C mockClient_C ''123'' (always (Responded 404 (Inr notFoundResponse))))
       = Rejected (NotFoundBugReportError 404 ''Bug report not found'')"
    "outcome (submitBugReportWithFile_B mockClient_B sampleUpload
                 (always (Responded 404 (Inr notFoundResponse))))
       = Rejected (NotFoundBugReportError 404 ''Bug report not found'')"
    "outcome (getBugTags_C mockClient_C (always (Responded 404 (Inr notFoundResponse))))
       = Rejected (ApiBugReportError 404 ''Bug report not found'')"
    using all by simp_all
  have messages:
    "error_message decimal issue_codes (ApiBugReportError 404 ''Bug report not found'')
       = ''API Error ['' @ decimal (code (meta notFoundResponse)) @ '']: ''
         @ message (meta notFoundResponse)"
    "error_message decimal issue_codes (NotFoundBugReportError 404 ''Bug report not found'')
       = ''Not Found Error ['' @ decimal (code (meta notFoundResponse)) @ '']: ''
         @ message (meta notFoundResponse)"
    using all safe by blast+
  show ?thesis
    using not_ok mockBugReport_valid(1) sampleUpload_valid safe outcomes messages rendered
    by simp
qed

subsection \<open>C2: an invalid payload is rejected before any request\<close>

text \<open>
  C2. When the report fails its schema (\<^verbatim>\<open>BugReportSchema\<close> for the JSON submissions,
  \<^verbatim>\<open>BugReportFileSchema\<close> for the uploads), every submission operation of every
  version rejects with an error of the plain class \<^verbatim>\<open>Error\<close> and has sent no
  request, whatever the network would have answered.
\<close>

theorem invalid_payload_rejected_before_any_request:
  fixes report :: "'z BugReport_scheme" and upload :: "'w BugReportFile_scheme"
  assumes "BugReportSchema report \<noteq> []" and "BugReportFileSchema upload \<noteq> []"
  shows
    "error_name (InvalidBugReportData (BugReportSchema report)) = ''Error''
     \<and> error_name (InvalidBugReportData (BugReportFileSchema upload)) = ''Error''
     \<and> rejects_unsent (submitBugReport_A BugReportSchema this report now fetch)
          (InvalidBugReportData (BugReportSchema report))
     \<and> rejects_unsent (submitBugReportWithProgress_A BugReportSchema this report now fetch)
          (InvalidBugReportData (BugReportSchema report))
     \<and> rejects_unsent (submitBugReport_B BugReportSchema thisB report now fetch)
          (InvalidBugReportData (BugReportSchema report))
     \<and> rejects_unsent (submitBugReport_C BugReportSchema this report now fetch)
          (InvalidBugReportData (BugReportSchema report))
     \<and> rejects_unsent (submitBugReportWithProgress_C BugReportSchema this report now fetch)
          (InvalidBugReportData (BugReportSchema report))
     \<and> rejects_unsent (submitBugReport_D BugReportSchema this report now fetch)
          (InvalidBugReportData (BugReportSchema report))
     \<and> rejects_unsent (submitBugReportWithProgress_D BugReportSchema this report now xhr)
          (InvalidBugReportData (BugReportSchema report))
     \<and> rejects_unsent (submitBugReportWithFile_B thisB upload fetch_upload)
          (InvalidBugReportData (BugReportFileSchema upload))
     \<and> rejects_unsent (submitBugReportWithFileProgress_B thisB upload xhr_upload)
          (InvalidBugReportData (BugReportFileSchema upload))
     \<and> rejects_unsent (submitBugReportWithFile_C this upload fetch_upload)
          (InvalidBugReportData (BugReportFileSchema upload))
     \<and> rejects_unsent (submitBugReportWithFileProgress_C this upload xhr_upload)
          (InvalidBugReportData (BugReportFileSchema upload))
     \<and> rejects_unsent (submitBugReportWithFile_D this upload fetch_upload)
          (InvalidBugReportData (BugReportFileSchema upload))
     \<and> rejects_unsent (submitBugReportWithFileProgress_D this upload xhr_upload)
          (InvalidBugReportData (BugReportFileSchema upload))"
  using assms by (simp add: rejects_unsent_def A_defs B_defs C_defs D_defs)

theorem invalid_payload_rejected_before_any_request_witness:
  "BugReportSchema_files (mockBugReport\<lparr>title := []\<rparr>) \<noteq> []
   \<and> BugReportFileSchema (sampleUpload\<lparr>report_file := [\<lparr>file_name = ''a.gif'', file_type = ''image/gif'', file_size = 10\<rparr>]\<rparr>) \<noteq> []
   \<and> rejects_unsent
        (submitBugReport_A BugReportSchema_files mockClient (mockBugReport\<lparr>title := []\<rparr>) 0
           (always (Responded 200 (Inr mockResponse))))
        (InvalidBugReportData [ZodIssue ''too_small'' [Key ''title'']])
   \<and> rejects_unsent
        (submitBugReportWithFileProgress_C mockClient_C
           (sampleUpload\<lparr>report_file := [\<lparr>file_name = ''a.gif'', file_type = ''image/gif'', file_size = 10\<rparr>]\<rparr>)
           (always (Responded 200 (Inr mockResponse))))
        (InvalidBugReportData [ZodIssue ''custom'' [Key ''file'', Index 0]])"
  using invalid_payload_rejected_before_any_request
    [where BugReportSchema = BugReportSchema_files and report = "mockBugReport\<lparr>title := []\<rparr>"
       and upload = "sampleUpload\<lparr>report_file := [\<lparr>file_name = ''a.gif'', file_type = ''image/gif'', file_size = 10\<rparr>]\<rparr>"
       and this = mockClient_C and thisB = mockClient_B and now = 0
       and fetch = "always (Responded 200 (Inr mockResponse))"
       and xhr = "always (Responded 200 (Inr mockResponse))"
       and fetch_upload = "always (Responded 200 (Inr mockResponse))"
       and xhr_upload = "always (Responded 200 (Inr mockResponse))"]
  by (simp add: schema_defs mockBugReport_def sampleUpload_def rejects_unsent_def
        submitBugReport_A_def)

subsection \<open>C3: the constructor needs the URL and every credential\<close>

text \<open>
  C3. When the API URL or a required credential (\<^verbatim>\<open>appName\<close> in version A,
  \<^verbatim>\<open>appKey\<close>, \<^verbatim>\<open>appSecret\<close>) is absent or the empty string, the constructor of every
  version throws and gives no client. Version D leaves the check of the URL to the
  platform's URL parser, which does not take the empty string for a URL.
\<close>

theorem constructor_throws_without_credentials:
  assumes "falsy (apiUrl options_A) \<or> falsy (appName options_A) \<or> falsy (appKey options_A)
           \<or> falsy (appSecret options_A)"
    and "falsy (apiUrl options) \<or> falsy (appKey options) \<or> falsy (appSecret options)"
    and "\<not> is_url []"
  shows
    "(\<exists>e. BugReportClient_A options_A = Inl e)
     \<and> (\<exists>e. BugReportClient_B options = Inl e)
     \<and> (\<exists>e. BugReportClient_C options = Inl e)
     \<and> (\<exists>e. BugReportClient_D is_url options = Inl e)"
proof (intro conjI)
  show "\<exists>e. BugReportClient_A options_A = Inl e"
    using assms(1) by (auto simp: BugReportClient_A_def)
  show "\<exists>e. BugReportClient_B options = Inl e"
    using assms(2) by (auto simp: BugReportClient_B_def)
  show "\<exists>e. BugReportClient_C options = Inl e"
    using assms(2) by (auto simp: BugReportClient_C_def)
  have "AppCredentialsSchema is_url (apiUrl options) (appKey options) (appSecret options) \<noteq> []"
    using assms(2,3)
    by (auto simp: AppCredentialsSchema_def string_url_def string_min_required_def
          string_min_def falsy_def split: option.splits)
  then show "\<exists>e. BugReportClient_D is_url options = Inl e"
    by (simp add: BugReportClient_D_def)
qed

theorem constructor_throws_without_credentials_witness:
  "(falsy (apiUrl (mockCredentials\<lparr>appName := Some []\<rparr>))
      \<or> falsy (appName (mockCredentials\<lparr>appName := Some []\<rparr>))
      \<or> falsy (appKey (mockCredentials\<lparr>appName := Some []\<rparr>))
      \<or> falsy (appSecret (mockCredentials\<lparr>appName := Some []\<rparr>)))
   \<and> (falsy (apiUrl (mockOptions\<lparr>appSecret := None\<rparr>))
      \<or> falsy (appKey (mockOptions\<lparr>appSecret := None\<rparr>))
      \<or> falsy (appSecret (mockOptions\<lparr>appSecret := None\<rparr>)))
   \<and> \<not> starts_with_https []
   \<and> BugReportClient_A (mockCredentials\<lparr>appName := Some []\<rparr>)
       = Inl (Error ''App credentials (App Name, App Key, App Secret) are required'')
   \<and> (\<exists>e. BugReportClient_B (mockOptions\<lparr>appSecret := None\<rparr>) = Inl e)
   \<and> (\<exists>e. BugReportClient_C (mockOptions\<lparr>appSecret := None\<rparr>) = Inl e)
   \<and> (\<exists>e. BugReportClient_D starts_with_https (mockOptions\<lparr>appSecret := None\<rparr>) = Inl e)"
  using constructor_throws_without_credentials
    [where options_A = "mockCredentials\<lparr>appName := Some []\<rparr>"
       and options = "mockOptions\<lparr>appSecret := None\<rparr>" and is_url = starts_with_https]
  by (simp add: falsy_def mockCredentials_def mockOptions_def starts_with_https_def
        BugReportClient_A_def)

subsection \<open>C4: what an operation leaves of the client\<close>

text \<open>
  Every operation but one returns the client object as it was.
\<close>

lemma operations_leave_client_unchanged:
  "client (submitBugReport_A BugReportSchema this report now fetch) = this
   \<and> client (submitBugReportWithProgress_A BugReportSchema this report now fetch) = this
   \<and> client (getBugReport_A this bug_id fetch_get) = this
   \<and> client (getBugTags_A this fetch_get) = this
   \<and> client (submitBugReport_B BugReportSchema thisB report now fetch) = thisB
   \<and> client (submitBugReportWithFile_B thisB upload fetch_upload) = thisB
   \<and> client (submitBugReportWithFileProgress_B thisB upload xhr_upload) = thisB
   \<and> client (getBugReport_B thisB bug_id fetch_get) = thisB
   \<and> client (getBugTags_B thisB fetch_get) = thisB
   \<and> client (submitBugReport_C BugReportSchema this report now fetch) = this
   \<and> client (submitBugReportWithProgress_C BugReportSchema this report now fetch) = this
   \<and> client (submitBugReportWithFile_C this upload fetch_upload) = this
   \<and> client (getBugReport_C this bug_id fetch_get) = this
   \<and> client (getBugTags_C this fetch_get) = this
   \<and> client (submitBugReport_D BugReportSchema this report now fetch) = this
   \<and> client (submitBugReportWithProgress_D BugReportSchema this report now xhr) = this
   \<and> client (submitBugReportWithFile_D this upload fetch_upload) = this
   \<and> client (submitBugReportWithFileProgress_D this upload xhr_upload) = this
   \<and> client (getBugReport_D this bug_id fetch_get) = this
   \<and> client (getBugTags_D this fetch_get) = this"
  by (simp add: A_defs B_defs C_defs D_defs Let_def)

text \<open>
  C4 claims that no operation modifies the headers of the instance. In version C the
  upload with progress does: after one call with a valid report, on a client built with
  the default headers, the instance's \<^verbatim>\<open>Content-Type\<close> is \<^verbatim>\<open>multipart/form-data\<close> and
  not the \<^verbatim>\<open>application/json\<close> that the constructor set, and the next
  \<^verbatim>\<open>submitBugReport\<close> sends its JSON body under that header.
\<close>

theorem submitBugReportWithFileProgress_C_changes_client_headers:
  "BugReportClient_C mockOptions = Inr mockClient_C
   \<and> this_headers mockClient_C ''Content-Type'' = Some ''application/json''
   \<and> this_headers
        (client (submitBugReportWithFileProgress_C mockClient_C sampleUpload
                   (always (Responded 200 (Inr mockResponse)))))
        ''Content-Type''
      = Some ''multipart/form-data''
   \<and> client (submitBugReportWithFileProgress_C mockClient_C sampleUpload
                (always (Responded 200 (Inr mockResponse))))
      \<noteq> mockClient_C
   \<and> sent_bodies
        (submitBugReport_C BugReportSchema_files
           (client (submitBugReportWithFileProgress_C mockClient_C sampleUpload
                      (always (Responded 200 (Inr mockResponse)))))
           mockBugReport 0 (always (Responded 200 (Inr mockResponse))))
      = [JsonText (mockBugReport\<lparr>createdAt := Some (Date 0)\<rparr>)]
   \<and> sent_header ''Content-Type''
        (submitBugReport_C BugReportSchema_files
           (client (submitBugReportWithFileProgress_C mockClient_C sampleUpload
                      (always (Responded 200 (Inr mockResponse)))))
           mockBugReport 0 (always (Responded 200 (Inr mockResponse))))
      = [Some ''multipart/form-data'']"
proof -
  have valid: "BugReportFileSchema sampleUpload = []"
    by (rule sampleUpload_valid)
  have after: "client (submitBugReportWithFileProgress_C mockClient_C sampleUpload
                  (always (Responded 200 (Inr mockResponse))))
               = mockClient_C\<lparr>this_headers :=
                   (this_headers mockClient_C)(''Content-Type'' \<mapsto> ''multipart/form-data'')\<rparr>"
    by (simp add: submitBugReportWithFileProgress_C_def valid Let_def)
  have differ: "mockClient_C\<lparr>this_headers :=
                   (this_headers mockClient_C)(''Content-Type'' \<mapsto> ''multipart/form-data'')\<rparr>
                \<noteq> mockClient_C"
  proof
    assume "mockClient_C\<lparr>this_headers :=
                   (this_headers mockClient_C)(''Content-Type'' \<mapsto> ''multipart/form-data'')\<rparr>
            = mockClient_C"
    then have "this_headers (mockClient_C\<lparr>this_headers :=
                   (this_headers mockClient_C)(''Content-Type'' \<mapsto> ''multipart/form-data'')\<rparr>)
                 ''Content-Type''
               = this_headers mockClient_C ''Content-Type''"
      by simp
    then show False
      by (simp add: mockClient_C_def)
  qed
  show ?thesis
    unfolding after
    using differ
    by (simp add: mockClient_constructed submitBugReport_C_def mockBugReport_valid Let_def
          createdAt_or_now_def sent_bodies_def sent_header_def sent_headers_def)
      (simp add: mockClient_C_def mockBugReport_def)
qed

subsection \<open>C5: the form of a multipart upload\<close>

text \<open>
  C5 claims that an upload always carries one or more files and that a report with an empty
  file list is not accepted. As stated this fails: \<^verbatim>\<open>BugReportFileSchema\<close> puts no
  minimum on the \<^verbatim>\<open>file\<close> array, so a report without files is valid and its form has
  the four text fields only.
\<close>

theorem upload_without_files_is_accepted:
  "BugReportFileSchema (sampleUpload\<lparr>report_file := []\<rparr>) = []
   \<and> sent_bodies (submitBugReportWithFile_B mockClient_B (sampleUpload\<lparr>report_file := []\<rparr>)
                    (always (Responded 200 (Inr mockResponse))))
     = [FormData [(''title'', Text ''Test Bug''),
                  (''description'', Text ''This is a test bug report''),
                  (''severity'', Text ''HIGH''),
                  (''tags'', Text (JSON_stringify [''UI'', ''FUNCTIONALITY'']))]]"
  by (simp add: schema_defs sampleUpload_def sent_bodies_def submitBugReportWithFile_B_def
        formData_def Let_def)

text \<open>
  C5, amended. For every valid upload report, \<^verbatim>\<open>submitBugReportWithFile\<close> and
  \<^verbatim>\<open>submitBugReportWithFileProgress\<close> of every version send one request whose body is a
  form with exactly the fields \<^verbatim>\<open>title\<close>, \<^verbatim>\<open>description\<close>, \<^verbatim>\<open>severity\<close>, \<^verbatim>\<open>tags\<close>
  (the JSON text of the tag list), followed by one entry \<^verbatim>\<open>file\<close> for each file of the
  report, in order: zero or more of them.
\<close>

theorem upload_form_fields:
  fixes upload :: "'w BugReportFile_scheme"
  assumes "BugReportFileSchema upload = []"
    and "form = FormData
               ([(''title'', Text (title upload)), (''description'', Text (description upload)),
                 (''severity'', Text (severity upload)),
                 (''tags'', Text (JSON_stringify (tags upload)))]
                @ map (\<lambda>f. (''file'', Blob f)) (report_file upload))"
  shows
    "sent_bodies (submitBugReportWithFile_B thisB upload fetch_upload) = [form]
     \<and> sent_bodies (submitBugReportWithFileProgress_B thisB upload xhr_upload) = [form]
     \<and> sent_bodies (submitBugReportWithFile_C this upload fetch_upload) = [form]
     \<and> sent_bodies (submitBugReportWithFileProgress_C this upload xhr_upload) = [form]
     \<and> sent_bodies (submitBugReportWithFile_D this upload fetch_upload) = [form]
     \<and> sent_bodies (submitBugReportWithFileProgress_D this upload xhr_upload) = [form]"
  using assms
  by (simp add: sent_bodies_def formData_def Let_def submitBugReportWithFile_B_def
        submitBugReportWithFileProgress_B_def submitBugReportWithFile_C_def
        submitBugReportWithFileProgress_C_def submitBugReportWithFile_D_def
        submitBugReportWithFileProgress_D_def)

theorem upload_form_fields_witness:
  "BugReportFileSchema sampleUpload = []
   \<and> sent_bodies (submitBugReportWithFileProgress_D mockClient_C sampleUpload
                    (always (Responded 200 (Inr mockResponse))))
     = [FormData [(''title'', Text ''Test Bug''),
                  (''description'', Text ''This is a test bug report''),
                  (''severity'', Text ''HIGH''),
                  (''tags'', Text (JSON_stringify [''UI'', ''FUNCTIONALITY''])),
                  (''file'', Blob \<lparr>file_name = ''screen.png'', file_type = ''image/png'',
                                   file_size = 2048\<rparr>)]]"
proof -
  have form: "FormData [(''title'', Text ''Test Bug''),
                  (''description'', Text ''This is a test bug report''),
                  (''severity'', Text ''HIGH''),
                  (''tags'', Text (JSON_stringify [''UI'', ''FUNCTIONALITY''])),
                  (''file'', Blob \<lparr>file_name = ''screen.png'', file_type = ''image/png'',
                                   file_size = 2048\<rparr>)]
              = FormData
               ([(''title'', Text (title sampleUpload)), (''description'', Text (description sampleUpload)),
                 (''severity'', Text (severity sampleUpload)),
                 (''tags'', Text (JSON_stringify (tags sampleUpload)))]
                @ map (\<lambda>f. (''file'', Blob f)) (report_file sampleUpload))"
    by (simp add: sampleUpload_def)
  show ?thesis
    using upload_form_fields
      [where upload = sampleUpload and this = mockClient_C and thisB = mockClient_B
         and fetch_upload = "always (Responded 200 (Inr mockResponse))"
         and xhr_upload = "always (Responded 200 (Inr mockResponse))",
       OF sampleUpload_valid form]
    by (simp add: sampleUpload_valid)
qed

subsection \<open>C6: a request that fails on the network\<close>

text \<open>
  C6 claims that every operation answers a network failure with a generic error whose
  message is fixed. As stated this fails for the operations that call \<^verbatim>\<open>fetch\<close>:
  nothing catches the rejection of \<^verbatim>\<open>fetch\<close>, so the caller receives the transport's own
  error, whatever its class and message.
\<close>

theorem fetch_failure_is_passed_on:
  "outcome (submitBugReport_A BugReportSchema_metadata mockClient mockBugReport 0
              (always (NetworkFailure (Thrown ''TypeError'' ''Failed to fetch''))))
     = Rejected (Thrown ''TypeError'' ''Failed to fetch'')
   \<and> outcome (submitBugReport_A BugReportSchema_metadata mockClient mockBugReport 0
              (always (NetworkFailure (Thrown ''FetchError'' ''socket hang up''))))
     = Rejected (Thrown ''FetchError'' ''socket hang up'')
   \<and> error_name (Thrown ''TypeError'' ''Failed to fetch'') \<noteq> ''Error''"
  by (simp add: submitBugReport_A_def mockBugReport_valid Let_def)

text \<open>
  C6, amended. When the request fails on the network: the operations that use an
  \<^verbatim>\<open>XMLHttpRequest\<close> reject with a plain \<^verbatim>\<open>Error\<close> whose message is fixed
  (\<^verbatim>\<open>Network error occurred\<close> for \<^verbatim>\<open>submitBugReportWithFileProgress\<close> of every version,
  \<^verbatim>\<open>Network request failed\<close> for \<^verbatim>\<open>submitBugReportWithProgress\<close> of version D); the
  operations that use \<^verbatim>\<open>fetch\<close> reject with the error value \<open>e\<close> that \<^verbatim>\<open>fetch\<close>
  rejected with, unchanged.
\<close>

theorem network_failure_outcome:
  fixes report :: "'z BugReport_scheme" and upload :: "'w BugReportFile_scheme"
  assumes "BugReportSchema report = []" and "BugReportFileSchema upload = []"
  shows
    "(outcome (submitBugReport_A BugReportSchema this report now (always (NetworkFailure e)))
        :: 'y ApiErrorResponse_scheme outcome)
       = Rejected e
     \<and> (outcome (submitBugReportWithProgress_A BugReportSchema this report now (always (NetworkFailure e)))
        :: 'y ApiErrorResponse_scheme outcome)
       = Rejected e
     \<and> (outcome (getBugReport_A this bug_id (always (NetworkFailure e)))
        :: 'y ApiErrorResponse_scheme outcome)
       = Rejected e
     \<and> (outcome (getBugTags_A this (always (NetworkFailure e)))
        :: 'y ApiErrorResponse_scheme outcome)
       = Rejected e
     \<and> (outcome (submitBugReport_B BugReportSchema thisB report now (always (NetworkFailure e)))
        :: 'y ApiErrorResponse_scheme outcome)
       = Rejected e
     \<and> (outcome (submitBugReportWithFile_B thisB upload (always (NetworkFailure e)))
        :: 'y ApiErrorResponse_scheme outcome)
       = Rejected e
     \<and> (outcome (submitBugReportWithFileProgress_B thisB upload (always (NetworkFailure e)))
        :: 'y ApiErrorResponse_scheme outcome)
       = Rejected (Error ''Network error occurred'')
     \<and> (outcome (getBugReport_B thisB bug_id (always (NetworkFailure e)))
        :: 'y ApiErrorResponse_scheme outcome)
       = Rejected e
     \<and> (outcome (getBugTags_B thisB (always (NetworkFailure e)))
        :: 'y ApiErrorResponse_scheme outcome)
       = Rejected e
     \<and> (outcome (submitBugReport_C BugReportSchema this report now (always (NetworkFailure e)))
        :: 'y ApiErrorResponse_scheme outcome)
       = Rejected e
     \<and> (outcome (submitBugReportWithProgress_C BugReportSchema this report now (always (NetworkFailure e)))
        :: 'y ApiErrorResponse_scheme outcome)
       = Rejected e
     \<and> (outcome (submitBugReportWithFile_C this upload (always (NetworkFailure e)))
        :: 'y ApiErrorResponse_scheme outcome)
       = Rejected e
     \<and> (outcome (submitBugReportWithFileProgress_C this upload (always (NetworkFailure e)))
        :: 'y ApiErrorResponse_scheme outcome)
       = Rejected (Error ''Network error occurred'')
     \<and> (outcome (getBugReport_C this bug_id (always (NetworkFailure e)))
        :: 'y ApiErrorResponse_scheme outcome)
       = Rejected e
     \<and> (outcome (getBugTags_C this (always (NetworkFailure e)))
        :: 'y ApiErrorResponse_scheme outcome)
       = Rejected e
     \<and> (outcome (submitBugReport_D BugReportSchema this report now (always (NetworkFailure e)))
        :: 'y ApiErrorResponse_scheme outcome)
       = Rejected e
     \<and> (outcome (submitBugReportWithProgress_D BugReportSchema this report now (always (NetworkFailure e)))
        :: 'y ApiErrorResponse_scheme outcome)
       = Rejected (Error ''Network request failed'')
     \<and> (outcome (submitBugReportWithFile_D this upload (always (NetworkFailure e)))
        :: 'y ApiErrorResponse_scheme outcome)
       = Rejected e
     \<and> (outcome (submitBugReportWithFileProgress_D this upload (always (NetworkFailure e)))
        :: 'y ApiErrorResponse_scheme outcome)
       = Rejected (Error ''Network error occurred'')
     \<and> (outcome (getBugReport_D this bug_id (always (NetworkFailure e)))
        :: 'y ApiErrorResponse_scheme outcome)
       = Rejected e
     \<and> (outcome (getBugTags_D this (always (NetworkFailure e)))
        :: 'y ApiErrorResponse_scheme outcome)
       = Rejected e"
  using assms by (simp add: A_defs B_defs C_defs D_defs Let_def)

theorem network_failure_outcome_witness:
  "BugReportSchema_files mockBugReport = [] \<and> BugReportFileSchema sampleUpload = []
   \<and> (outcome (submitBugReportWithFileProgress_B mockClient_B sampleUpload
                  (always (NetworkFailure (Thrown ''TypeError'' ''Failed to fetch''))))
        :: unit ApiErrorResponse_scheme outcome)
       = Rejected (Error ''Network error occurred'')
   \<and> (outcome (submitBugReportWithProgress_D BugReportSchema_files mockClient_C mockBugReport 0
                  (always (NetworkFailure (Thrown ''TypeError'' ''Failed to fetch''))))
        :: unit ApiErrorResponse_scheme outcome)
       = Rejected (Error ''Network request failed'')
   \<and> (outcome (getBugTags_B mockClient_B
                  (always (NetworkFailure (Thrown ''TypeError'' ''Failed to fetch''))))
        :: unit ApiErrorResponse_scheme outcome)
       = Rejected (Thrown ''TypeError'' ''Failed to fetch'')"
  using network_failure_outcome
    [where BugReportSchema = BugReportSchema_files and report = mockBugReport
       and upload = sampleUpload and this = mockClient_C and thisB = mockClient_B and now = 0
       and bug_id = "''123''" and e = "Thrown ''TypeError'' ''Failed to fetch''" and 'y = unit,
     OF mockBugReport_valid(1) sampleUpload_valid]
  by (simp add: mockBugReport_valid sampleUpload_valid)

subsection \<open>C7: the creation time in the request body\<close>

text \<open>
  C7. For every valid report, \<^verbatim>\<open>submitBugReport\<close> and \<^verbatim>\<open>submitBugReportWithProgress\<close> of
  every version send one request whose body is the JSON text of the report (for the two
  \<^verbatim>\<open>fetch\<close> versions of \<^verbatim>\<open>submitBugReportWithProgress\<close>, a stream of that text) with
  \<^verbatim>\<open>createdAt\<close> set to the clock's reading when the report has none, and of the report as
  given when it has one.
\<close>

theorem createdAt_defaults_to_request_time:
  fixes report :: "'z BugReport_scheme"
  assumes "BugReportSchema report = []"
  shows
    "(createdAt report = None \<longrightarrow>
       sent_bodies (submitBugReport_A BugReportSchema this report now fetch)
         = [JsonText (report\<lparr>createdAt := Some (Date now)\<rparr>)]
       \<and> sent_bodies (submitBugReportWithProgress_A BugReportSchema this report now fetch)
         = [JsonStream (report\<lparr>createdAt := Some (Date now)\<rparr>)]
       \<and> sent_bodies (submitBugReport_B BugReportSchema thisB report now fetch)
         = [JsonText (report\<lparr>createdAt := Some (Date now)\<rparr>)]
       \<and> sent_bodies (submitBugReport_C BugReportSchema this report now fetch)
         = [JsonText (report\<lparr>createdAt := Some (Date now)\<rparr>)]
       \<and> sent_bodies (submitBugReportWithProgress_C BugReportSchema this report now fetch)
         = [JsonStream (report\<lparr>createdAt := Some (Date now)\<rparr>)]
       \<and> sent_bodies (submitBugReport_D BugReportSchema this report now fetch)
         = [JsonText (report\<lparr>createdAt := Some (Date now)\<rparr>)]
       \<and> sent_bodies (submitBugReportWithProgress_D BugReportSchema this report now xhr)
         = [JsonText (report\<lparr>createdAt := Some (Date now)\<rparr>)])
     \<and> (createdAt report \<noteq> None \<longrightarrow>
       sent_bodies (submitBugReport_A BugReportSchema this report now fetch)
         = [JsonText (report)]
       \<and> sent_bodies (submitBugReportWithProgress_A BugReportSchema this report now fetch)
         = [JsonStream (report)]
       \<and> sent_bodies (submitBugReport_B BugReportSchema thisB report now fetch)
         = [JsonText (report)]
       \<and> sent_bodies (submitBugReport_C BugReportSchema this report now fetch)
         = [JsonText (report)]
       \<and> sent_bodies (submitBugReportWithProgress_C BugReportSchema this report now fetch)
         = [JsonStream (report)]
       \<and> sent_bodies (submitBugReport_D BugReportSchema this report now fetch)
         = [JsonText (report)]
       \<and> sent_bodies (submitBugReportWithProgress_D BugReportSchema this report now xhr)
         = [JsonText (report)])"
  using assms
  by (auto simp: sent_bodies_def createdAt_or_now_def Let_def submitBugReport_A_def
        submitBugReportWithProgress_A_def submitBugReport_B_def submitBugReport_C_def
        submitBugReportWithProgress_C_def submitBugReport_D_def submitBugReportWithProgress_D_def)

theorem createdAt_defaults_to_request_time_witness:
  "BugReportSchema_files mockBugReport = [] \<and> createdAt mockBugReport = None
   \<and> sent_bodies (submitBugReport_A BugReportSchema_files mockClient mockBugReport 1700000000000
                    (always (Responded 200 (Inr mockResponse))))
       = [JsonText (mockBugReport\<lparr>createdAt := Some (Date 1700000000000)\<rparr>)]
   \<and> BugReportSchema_files (mockBugReport\<lparr>createdAt := Some (Date 86400000)\<rparr>) = []
   \<and> createdAt (mockBugReport\<lparr>createdAt := Some (Date 86400000)\<rparr>) \<noteq> None
   \<and> sent_bodies (submitBugReportWithProgress_A BugReportSchema_files mockClient
                    (mockBugReport\<lparr>createdAt := Some (Date 86400000)\<rparr>) 1700000000000
                    (always (Responded 200 (Inr mockResponse))))
       = [JsonStream (mockBugReport\<lparr>createdAt := Some (Date 86400000)\<rparr>)]"
proof -
  have dated: "BugReportSchema_files (mockBugReport\<lparr>createdAt := Some (Date 86400000)\<rparr>) = []"
    by (simp add: schema_defs mockBugReport_def)
  show ?thesis
    using createdAt_defaults_to_request_time
        [where BugReportSchema = BugReportSchema_files and report = mockBugReport
           and this = mockClient and thisB = mockClient_B and now = 1700000000000
           and fetch = "always (Responded 200 (Inr mockResponse))"
           and xhr = "always (Responded 200 (Inr mockResponse))",
         OF mockBugReport_valid(1)]
      createdAt_defaults_to_request_time
        [where BugReportSchema = BugReportSchema_files
           and report = "mockBugReport\<lparr>createdAt := Some (Date 86400000)\<rparr>"
           and this = mockClient and thisB = mockClient_B and now = 1700000000000
           and fetch = "always (Responded 200 (Inr mockResponse))"
           and xhr = "always (Responded 200 (Inr mockResponse))",
         OF dated]
    by (simp add: mockBugReport_valid dated) (simp add: mockBugReport_def)
qed

subsection \<open>C8: a 2xx body is passed through\<close>

text \<open>
  C8. When the response has a 2xx status and its body parses to \<open>d\<close>, every operation of
  every version resolves with \<open>d\<close> itself.
\<close>

theorem success_body_is_returned_unchanged:
  fixes d :: "'y ApiErrorResponse_scheme"
    and report :: "'z BugReport_scheme" and upload :: "'w BugReportFile_scheme"
  assumes "ok st" and "BugReportSchema report = []" and "BugReportFileSchema upload = []"
  shows
    "outcome (submitBugReport_A BugReportSchema this report now (always (Responded st (Inr d))))
       = Resolved d
     \<and> outcome (submitBugReportWithProgress_A BugReportSchema this report now (always (Responded st (Inr d))))
       = Resolved d
     \<and> outcome (getBugReport_A this bug_id (always (Responded st (Inr d))))
       = Resolved d
     \<and> outcome (getBugTags_A this (always (Responded st (Inr d))))
       = Resolved d
     \<and> outcome (submitBugReport_B BugReportSchema thisB report now (always (Responded st (Inr d))))
       = Resolved d
     \<and> outcome (submitBugReportWithFile_B thisB upload (always (Responded st (Inr d))))
       = Resolved d
     \<and> outcome (submitBugReportWithFileProgress_B thisB upload (always (Responded st (Inr d))))
       = Resolved d
     \<and> outcome (getBugReport_B thisB bug_id (always (Responded st (Inr d))))
       = Resolved d
     \<and> outcome (getBugTags_B thisB (always (Responded st (Inr d))))
       = Resolved d
     \<and> outcome (submitBugReport_C BugReportSchema this report now (always (Responded st (Inr d))))
       = Resolved d
     \<and> outcome (submitBugReportWithProgress_C BugReportSchema this report now (always (Responded st (Inr d))))
       = Resolved d
     \<and> outcome (submitBugReportWithFile_C this upload (always (Responded st (Inr d))))
       = Resolved d
     \<and> outcome (submitBugReportWithFileProgress_C this upload (always (Responded st (Inr d))))
       = Resolved d
     \<and> outcome (getBugReport_C this bug_id (always (Responded st (Inr d))))
       = Resolved d
     \<and> outcome (getBugTags_C this (always (Responded st (Inr d))))
       = Resolved d
     \<and> outcome (submitBugReport_D BugReportSchema this report now (always (Responded st (Inr d))))
       = Resolved d
     \<and> outcome (submitBugReportWithProgress_D BugReportSchema this report now (always (Responded st (Inr d))))
       = Resolved d
     \<and> outcome (submitBugReportWithFile_D this upload (always (Responded st (Inr d))))
       = Resolved d
     \<and> outcome (submitBugReportWithFileProgress_D this upload (always (Responded st (Inr d))))
       = Resolved d
     \<and> outcome (getBugReport_D this bug_id (always (Responded st (Inr d))))
       = Resolved d
     \<and> outcome (getBugTags_D this (always (Responded st (Inr d))))
       = Resolved d"
  using assms by (simp add: A_defs B_defs C_defs D_defs mapper_defs status_2xx_ok Let_def)

theorem success_body_is_returned_unchanged_witness:
  "ok 201 \<and> BugReportSchema_metadata mockBugReport = [] \<and> BugReportFileSchema sampleUpload = []
   \<and> outcome (submitBugReport_A BugReportSchema_metadata mockClient mockBugReport 0
                 (always (Responded 201 (Inr mockResponse))))
       = Resolved mockResponse
   \<and> outcome (submitBugReportWithFileProgress_B mockClient_B sampleUpload
                 (always (Responded 201 (Inr mockResponse))))
       = Resolved mockResponse
   \<and> outcome (getBugReport_A mockClient ''123'' (always (Responded 201 (Inr mockResponse))))
       = Resolved mockResponse"
proof -
  have okay: "ok 201"
    by (simp add: ok_def)
  show ?thesis
    using success_body_is_returned_unchanged
      [where st = 201 and d = mockResponse and BugReportSchema = BugReportSchema_metadata
         and report = mockBugReport and upload = sampleUpload and this = mockClient
         and thisB = mockClient_B and now = 0 and bug_id = "''123''",
       OF okay mockBugReport_valid(2) sampleUpload_valid]
    by (simp add: okay mockBugReport_valid sampleUpload_valid)
qed

subsection \<open>C9: custom headers\<close>

text \<open>
  C9 claims that a caller-supplied \<^verbatim>\<open>Content-Type\<close> replaces the default one in every
  request. As stated this fails: the file upload of version C sets the header to
  \<^verbatim>\<open>multipart/form-data\<close> after the custom entries, and the JSON operations of
  version D set it to \<^verbatim>\<open>application/json\<close> after them.
\<close>

theorem custom_content_type_is_overridden:
  "overridingHeaders ''Content-Type'' = Some ''text/plain''
   \<and> BugReportClient_C (mockOptions\<lparr>headers := Some overridingHeaders\<rparr>)
       = Inr (mockClient_C\<lparr>this_headers := this_headers mockClient_C ++ overridingHeaders\<rparr>)
   \<and> sent_header ''Content-Type''
        (submitBugReportWithFile_C
           (mockClient_C\<lparr>this_headers := this_headers mockClient_C ++ overridingHeaders\<rparr>)
           sampleUpload (always (Responded 200 (Inr mockResponse))))
       = [Some ''multipart/form-data'']
   \<and> BugReportClient_D starts_with_https (mockOptions\<lparr>headers := Some overridingHeaders\<rparr>)
       = Inr (mockClient_D\<lparr>this_headers := this_headers mockClient_D ++ overridingHeaders\<rparr>)
   \<and> sent_header ''Content-Type''
        (submitBugReport_D BugReportSchema_files
           (mockClient_D\<lparr>this_headers := this_headers mockClient_D ++ overridingHeaders\<rparr>)
           mockBugReport 0 (always (Responded 200 (Inr mockResponse))))
       = [Some ''application/json'']"
  by (simp add: overridden_client_constructed sent_header_def sent_headers_def submitBugReportWithFile_C_def
        submitBugReport_D_def sampleUpload_valid mockBugReport_valid Let_def)
    (simp add: overridingHeaders_def)

text \<open>
  C9, amended. The headers of a constructed client are the default headers
  (\<^verbatim>\<open>Content-Type: application/json\<close> except in version D, \<^verbatim>\<open>X-App-Name\<close> in version A,
  \<^verbatim>\<open>X-App-Key\<close>, \<^verbatim>\<open>Authorization\<close>) overridden by the custom entries. Every operation
  leaves the client object as it was, apart from \<^verbatim>\<open>submitBugReportWithFileProgress\<close> of
  version C (see C4), and what that assignment does to later requests is left out here.
  Every request of an instance whose headers are the constructed ones carries them on every
  key other than \<^verbatim>\<open>Content-Type\<close>, so a caller-supplied \<^verbatim>\<open>Authorization\<close> replaces the
  default one there. On \<^verbatim>\<open>Content-Type\<close> such a request carries the instance's entry,
  hence a caller-supplied one, except that the uploads of version B send none, the uploads
  of version C send \<^verbatim>\<open>multipart/form-data\<close> and the JSON operations of version D send
  \<^verbatim>\<open>application/json\<close>.
\<close>

theorem custom_headers_override_defaults:
  fixes report :: "'z BugReport_scheme" and upload :: "'w BugReportFile_scheme"
  assumes "BugReportClient_A options_A = Inr this_A"
    and "BugReportClient_B options_B = Inr this_B"
    and "BugReportClient_C options_C = Inr this_C"
    and "BugReportClient_D is_url options_D = Inr this_D"
    and "BugReportSchema report = []" and "BugReportFileSchema upload = []"
  shows
    "this_headers this_A
       = [''Content-Type'' \<mapsto> ''application/json'',
          ''X-App-Name'' \<mapsto> the (appName options_A),
          ''X-App-Key'' \<mapsto> the (appKey options_A),
          ''Authorization'' \<mapsto> ''Bearer '' @ the (appSecret options_A)]
         ++ spread (headers options_A)
     \<and> this_headers this_B
       = [''Content-Type'' \<mapsto> ''application/json'',
          ''X-App-Key'' \<mapsto> the (appKey options_B),
          ''Authorization'' \<mapsto> ''Bearer '' @ the (appSecret options_B)]
         ++ spread (headers options_B)
     \<and> this_headers this_C
       = [''Content-Type'' \<mapsto> ''application/json'',
          ''X-App-Key'' \<mapsto> the (appKey options_C),
          ''Authorization'' \<mapsto> ''Bearer '' @ the (appSecret options_C)]
         ++ spread (headers options_C)
     \<and> this_headers this_D
       = [''X-App-Key'' \<mapsto> the (appKey options_D),
          ''Authorization'' \<mapsto> ''Bearer '' @ the (appSecret options_D)]
         ++ spread (headers options_D)
     \<and> sends_keeping (submitBugReport_A BugReportSchema this_A report now fetch)
         (this_headers this_A) this_A
     \<and> sends_keeping (submitBugReportWithProgress_A BugReportSchema this_A report now fetch)
         (this_headers this_A) this_A
     \<and> sends_keeping (getBugReport_A this_A bug_id fetch_get)
         (this_headers this_A) this_A
     \<and> sends_keeping (getBugTags_A this_A fetch_get)
         (this_headers this_A) this_A
     \<and> sends_keeping (submitBugReport_B BugReportSchema this_B report now fetch)
         (this_headers this_B) this_B
     \<and> sends_keeping (submitBugReportWithFile_B this_B upload fetch_upload)
         ((this_headers this_B)(''Content-Type'' := None)) this_B
     \<and> sends_keeping (submitBugReportWithFileProgress_B this_B upload xhr_upload)
         ((this_headers this_B)(''Content-Type'' := None)) this_B
     \<and> sends_keeping (getBugReport_B this_B bug_id fetch_get)
         (this_headers this_B) this_B
     \<and> sends_keeping (getBugTags_B this_B fetch_get)
         (this_headers this_B) this_B
     \<and> sends_keeping (submitBugReport_C BugReportSchema this_C report now fetch)
         (this_headers this_C) this_C
     \<and> sends_keeping (submitBugReportWithProgress_C BugReportSchema this_C report now fetch)
         (this_headers this_C) this_C
     \<and> sends_keeping (submitBugReportWithFile_C this_C upload fetch_upload)
         ((this_headers this_C)(''Content-Type'' \<mapsto> ''multipart/form-data'')) this_C
     \<and> sent_headers (submitBugReportWithFileProgress_C this_C upload xhr_upload)
       = [(this_headers this_C)(''Content-Type'' \<mapsto> ''multipart/form-data'')]
     \<and> sends_keeping (getBugReport_C this_C bug_id fetch_get)
         (this_headers this_C) this_C
     \<and> sends_keeping (getBugTags_C this_C fetch_get)
         (this_headers this_C) this_C
     \<and> sends_keeping (submitBugReport_D BugReportSchema this_D report now fetch)
         ((this_headers this_D)(''Content-Type'' \<mapsto> ''application/json'')) this_D
     \<and> sends_keeping (submitBugReportWithProgress_D BugReportSchema this_D report now xhr)
         ((this_headers this_D)(''Content-Type'' \<mapsto> ''application/json'')) this_D
     \<and> sends_keeping (submitBugReportWithFile_D this_D upload fetch_upload)
         (this_headers this_D) this_D
     \<and> sends_keeping (submitBugReportWithFileProgress_D this_D upload xhr_upload)
         (this_headers this_D) this_D
     \<and> sends_keeping (getBugReport_D this_D bug_id fetch_get)
         ((this_headers this_D)(''Content-Type'' \<mapsto> ''application/json'')) this_D
     \<and> sends_keeping (getBugTags_D this_D fetch_get)
         ((this_headers this_D)(''Content-Type'' \<mapsto> ''application/json'')) this_D"
proof -
  have A: "this_headers this_A
           = [''Content-Type'' \<mapsto> ''application/json'',
              ''X-App-Name'' \<mapsto> the (appName options_A),
              ''X-App-Key'' \<mapsto> the (appKey options_A),
              ''Authorization'' \<mapsto> ''Bearer '' @ the (appSecret options_A)]
             ++ spread (headers options_A)"
    using assms(1) by (auto simp: BugReportClient_A_def split: if_splits)
  have B: "this_headers this_B
           = [''Content-Type'' \<mapsto> ''application/json'',
              ''X-App-Key'' \<mapsto> the (appKey options_B),
              ''Authorization'' \<mapsto> ''Bearer '' @ the (appSecret options_B)]
             ++ spread (headers options_B)"
      "init_headers (defaultFetchOptions this_B) = this_headers this_B"
    using assms(2) by (auto simp: BugReportClient_B_def Let_def split: if_splits)
  have C: "this_headers this_C
           = [''Content-Type'' \<mapsto> ''application/json'',
              ''X-App-Key'' \<mapsto> the (appKey options_C),
              ''Authorization'' \<mapsto> ''Bearer '' @ the (appSecret options_C)]
             ++ spread (headers options_C)"
    using assms(3) by (auto simp: BugReportClient_C_def split: if_splits)
  have D: "this_headers this_D
           = [''X-App-Key'' \<mapsto> the (appKey options_D),
              ''Authorization'' \<mapsto> ''Bearer '' @ the (appSecret options_D)]
             ++ spread (headers options_D)"
    using assms(4) by (auto simp: BugReportClient_D_def split: if_splits)
  have requests_A: "sends_keeping (submitBugReport_A BugReportSchema this_A report now fetch)
         (this_headers this_A) this_A
      \<and> sends_keeping (submitBugReportWithProgress_A BugReportSchema this_A report now fetch)
         (this_headers this_A) this_A
      \<and> sends_keeping (getBugReport_A this_A bug_id fetch_get)
         (this_headers this_A) this_A
      \<and> sends_keeping (getBugTags_A this_A fetch_get)
         (this_headers this_A) this_A"
    using assms(5) by (simp add: sends_keeping_def sent_headers_def A_defs Let_def)
  have requests_B: "sends_keeping (submitBugReport_B BugReportSchema this_B report now fetch)
         (this_headers this_B) this_B
      \<and> sends_keeping (submitBugReportWithFile_B this_B upload fetch_upload)
         ((this_headers this_B)(''Content-Type'' := None)) this_B
      \<and> sends_keeping (submitBugReportWithFileProgress_B this_B upload xhr_upload)
         ((this_headers this_B)(''Content-Type'' := None)) this_B
      \<and> sends_keeping (getBugReport_B this_B bug_id fetch_get)
         (this_headers this_B) this_B
      \<and> sends_keeping (getBugTags_B this_B fetch_get)
         (this_headers this_B) this_B"
    using assms(5,6) by (simp add: sends_keeping_def sent_headers_def B_defs Let_def B(2))
  have requests_C: "sends_keeping (submitBugReport_C BugReportSchema this_C report now fetch)
         (this_headers this_C) this_C
      \<and> sends_keeping (submitBugReportWithProgress_C BugReportSchema this_C report now fetch)
         (this_headers this_C) this_C
      \<and> sends_keeping (submitBugReportWithFile_C this_C upload fetch_upload)
         ((this_headers this_C)(''Content-Type'' \<mapsto> ''multipart/form-data'')) this_C
      \<and> sent_headers (submitBugReportWithFileProgress_C this_C upload xhr_upload)
       = [(this_headers this_C)(''Content-Type'' \<mapsto> ''multipart/form-data'')]
      \<and> sends_keeping (getBugReport_C this_C bug_id fetch_get)
         (this_headers this_C) this_C
      \<and> sends_keeping (getBugTags_C this_C fetch_get)
         (this_headers this_C) this_C"
    using assms(5,6) by (simp add: sends_keeping_def sent_headers_def C_defs Let_def)
  have requests_D: "sends_keeping (submitBugReport_D BugReportSchema this_D report now fetch)
         ((this_headers this_D)(''Content-Type'' \<mapsto> ''application/json'')) this_D
      \<and> sends_keeping (submitBugReportWithProgress_D BugReportSchema this_D report now xhr)
         ((this_headers this_D)(''Content-Type'' \<mapsto> ''application/json'')) this_D
      \<and> sends_keeping (submitBugReportWithFile_D this_D upload fetch_upload)
         (this_headers this_D) this_D
      \<and> sends_keeping (submitBugReportWithFileProgress_D this_D upload xhr_upload)
         (this_headers this_D) this_D
      \<and> sends_keeping (getBugReport_D this_D bug_id fetch_get)
         ((this_headers this_D)(''Content-Type'' \<mapsto> ''application/json'')) this_D
      \<and> sends_keeping (getBugTags_D this_D fetch_get)
         ((this_headers this_D)(''Content-Type'' \<mapsto> ''application/json'')) this_D"
    using assms(5,6) by (simp add: sends_keeping_def sent_headers_def D_defs Let_def)
  show ?thesis
    using A B(1) C D requests_A requests_B requests_C requests_D by blast
qed

theorem custom_headers_override_defaults_witness:
  "BugReportClient_A (mockCredentials\<lparr>headers := Some overridingHeaders\<rparr>)
     = Inr (mockClient\<lparr>this_headers := this_headers mockClient ++ overridingHeaders\<rparr>)
   \<and> BugReportClient_B (mockOptions\<lparr>headers := Some overridingHeaders\<rparr>)
     = Inr (mockClient_B\<lparr>this_headers := this_headers mockClient_B ++ overridingHeaders,
             defaultFetchOptions := (defaultFetchOptions mockClient_B)
               \<lparr>init_headers := this_headers mockClient_B ++ overridingHeaders\<rparr>\<rparr>)
   \<and> BugReportClient_C shortKeyOptions = Inr shortKeyClient_C
   \<and> BugReportClient_D starts_with_https (mockOptions\<lparr>headers := Some overridingHeaders\<rparr>)
     = Inr (mockClient_D\<lparr>this_headers := this_headers mockClient_D ++ overridingHeaders\<rparr>)
   \<and> BugReportSchema_files mockBugReport = [] \<and> BugReportFileSchema sampleUpload = []
   \<and> map (\<lambda>h. (h ''Authorization'', h ''Content-Type'', h ''X-Custom-Header''))
        (sent_headers (getBugReport_A
           (mockClient\<lparr>this_headers := this_headers mockClient ++ overridingHeaders\<rparr>) ''123''
           (always (Responded 200 (Inr mockResponse)))))
       = [(Some ''Token abc'', Some ''text/plain'', Some ''custom-value'')]
   \<and> map (\<lambda>h. (h ''Authorization'', h ''Content-Type'', h ''X-Custom-Header''))
        (sent_headers (submitBugReportWithFileProgress_B
           (mockClient_B\<lparr>this_headers := this_headers mockClient_B ++ overridingHeaders,
             defaultFetchOptions := (defaultFetchOptions mockClient_B)
               \<lparr>init_headers := this_headers mockClient_B ++ overridingHeaders\<rparr>\<rparr>)
           sampleUpload (always (Responded 200 (Inr mockResponse)))))
       = [(Some ''Token abc'', None, Some ''custom-value'')]
   \<and> map (\<lambda>h. (h ''Authorization'', h ''Content-Type'', h ''X-App-Key''))
        (sent_headers (getBugReport_C shortKeyClient_C ''123''
           (always (Responded 200 (Inr mockResponse)))))
       = [(Some ''Token abc'', Some ''text/plain'', Some ''test'')]
   \<and> client (getBugReport_C shortKeyClient_C ''123'' (always (Responded 200 (Inr mockResponse))))
       = shortKeyClient_C
   \<and> map (\<lambda>h. (h ''Authorization'', h ''Content-Type'', h ''X-Custom-Header''))
        (sent_headers (getBugTags_D
           (mockClient_D\<lparr>this_headers := this_headers mockClient_D ++ overridingHeaders\<rparr>)
           (always (Responded 200 (Inr mockResponse)))))
       = [(Some ''Token abc'', Some ''application/json'', Some ''custom-value'')]"
proof -
  note all = custom_headers_override_defaults
    [where options_A = "mockCredentials\<lparr>headers := Some overridingHeaders\<rparr>"
       and options_B = "mockOptions\<lparr>headers := Some overridingHeaders\<rparr>" and options_C = shortKeyOptions
       and options_D = "mockOptions\<lparr>headers := Some overridingHeaders\<rparr>" and is_url = starts_with_https
       and BugReportSchema = BugReportSchema_files and report = mockBugReport
       and upload = sampleUpload and now = 0 and bug_id = "''123''"
       and fetch = "always (Responded 200 (Inr mockResponse))"
       and xhr = "always (Responded 200 (Inr mockResponse))"
       and fetch_upload = "always (Responded 200 (Inr mockResponse))"
       and xhr_upload = "always (Responded 200 (Inr mockResponse))"
       and fetch_get = "always (Responded 200 (Inr mockResponse))",
     OF overridden_client_constructed(1,2) shortKeyClient_constructed
       overridden_client_constructed(4) mockBugReport_valid(1) sampleUpload_valid,
     unfolded sends_keeping_def]
  have a: "sent_headers (getBugReport_A
             (mockClient\<lparr>this_headers := this_headers mockClient ++ overridingHeaders\<rparr>) ''123''
             (always (Responded 200 (Inr mockResponse))))
           = [this_headers (mockClient\<lparr>this_headers := this_headers mockClient ++ overridingHeaders\<rparr>)]"
    using all by blast
  have b: "sent_headers (submitBugReportWithFileProgress_B
             (mockClient_B\<lparr>this_headers := this_headers mockClient_B ++ overridingHeaders,
               defaultFetchOptions := (defaultFetchOptions mockClient_B)
                 \<lparr>init_headers := this_headers mockClient_B ++ overridingHeaders\<rparr>\<rparr>)
             sampleUpload (always (Responded 200 (Inr mockResponse))))
           = [(this_headers (mockClient_B\<lparr>this_headers := this_headers mockClient_B ++ overridingHeaders,
               defaultFetchOptions := (defaultFetchOptions mockClient_B)
                 \<lparr>init_headers := this_headers mockClient_B ++ overridingHeaders\<rparr>\<rparr>))
               (''Content-Type'' := None)]"
    using all by blast
  have c: "sent_headers (getBugReport_C shortKeyClient_C ''123''
             (always (Responded 200 (Inr mockResponse))))
           = [this_headers shortKeyClient_C]"
      "client (getBugReport_C shortKeyClient_C ''123'' (always (Responded 200 (Inr mockResponse))))
           = shortKeyClient_C"
    using all by blast+
  have d: "sent_headers (getBugTags_D
             (mockClient_D\<lparr>this_headers := this_headers mockClient_D ++ overridingHeaders\<rparr>)
             (always (Responded 200 (Inr mockResponse))))
           = [(this_headers (mockClient_D\<lparr>this_headers := this_headers mockClient_D ++ overridingHeaders\<rparr>))
               (''Content-Type'' \<mapsto> ''application/json'')]"
    using all by blast
  show ?thesis
    unfolding a b c d
    by (simp add: overridden_client_constructed shortKeyClient_constructed mockBugReport_valid
          sampleUpload_valid)
      (simp add: overridingHeaders_def shortKeyClient_C_def)
qed

subsection \<open>C10: what the report schema accepts\<close>

text \<open>
  C10 claims that every report within the bounds on title, description and tags and with a
  valid severity passes validation. As stated this fails in two ways: the version of the
  schema with \<^verbatim>\<open>z.array(BugTagSchema).min(1)\<close> refuses an empty tag list, and both
  versions refuse a \<^verbatim>\<open>createdAt\<close> that is an invalid date.
\<close>

theorem bounded_report_can_fail_validation:
  "title (mockBugReport\<lparr>tags := []\<rparr>) \<noteq> []
   \<and> length (title (mockBugReport\<lparr>tags := []\<rparr>)) \<le> 200
   \<and> description (mockBugReport\<lparr>tags := []\<rparr>) \<noteq> []
   \<and> severity (mockBugReport\<lparr>tags := []\<rparr>) \<in> set BugSeverity
   \<and> set (tags (mockBugReport\<lparr>tags := []\<rparr>)) \<subseteq> set BugTagSchema
   \<and> rejects_unsent
        (submitBugReport_A BugReportSchema_metadata mockClient (mockBugReport\<lparr>tags := []\<rparr>) 0
           (always (Responded 200 (Inr mockResponse))))
        (InvalidBugReportData [ZodIssue ''too_small'' [Key ''tags'']])
   \<and> BugReportSchema_files (mockBugReport\<lparr>createdAt := Some Invalid_Date\<rparr>)
       = [ZodIssue ''invalid_date'' [Key ''createdAt'']]"
  by (simp add: schema_defs mockBugReport_def rejects_unsent_def submitBugReport_A_def)

text \<open>
  C10, amended. A report whose title is empty or longer than 200 characters, or whose
  description is empty, or whose tags hold a string outside the tag enum, fails both
  versions of \<^verbatim>\<open>BugReportSchema\<close>, and \<^verbatim>\<open>submitBugReport\<close> of every version then
  throws the validation error and sends no request. Conversely the version of the schema
  without a minimum on \<^verbatim>\<open>tags\<close> accepts exactly the reports within those bounds whose
  severity is one of the four levels and whose \<^verbatim>\<open>createdAt\<close>, when given, is a valid date;
  the version with \<^verbatim>\<open>.min(1)\<close> accepts exactly those of them that have at least one tag.
\<close>

theorem report_schema_accepts_exactly:
  fixes report :: "'z BugReport_scheme"
  shows
    "(BugReportSchema_files report = [] \<longleftrightarrow>
        (title report \<noteq> [] \<and> length (title report) \<le> 200 \<and> description report \<noteq> []
          \<and> severity report \<in> set BugSeverity \<and> set (tags report) \<subseteq> set BugTagSchema
          \<and> createdAt report \<noteq> Some Invalid_Date))
     \<and> (BugReportSchema_metadata report = [] \<longleftrightarrow>
        (title report \<noteq> [] \<and> length (title report) \<le> 200 \<and> description report \<noteq> []
          \<and> severity report \<in> set BugSeverity \<and> set (tags report) \<subseteq> set BugTagSchema
          \<and> tags report \<noteq> [] \<and> createdAt report \<noteq> Some Invalid_Date))
     \<and> (title report = [] \<or> 200 < length (title report) \<or> description report = []
          \<or> \<not> set (tags report) \<subseteq> set BugTagSchema \<longrightarrow>
          rejects_unsent (submitBugReport_A BugReportSchema_files this report now fetch)
            (InvalidBugReportData (BugReportSchema_files report))
          \<and> rejects_unsent (submitBugReport_A BugReportSchema_metadata this report now fetch)
            (InvalidBugReportData (BugReportSchema_metadata report))
          \<and> rejects_unsent (submitBugReport_B BugReportSchema_files thisB report now fetch)
            (InvalidBugReportData (BugReportSchema_files report))
          \<and> rejects_unsent (submitBugReport_B BugReportSchema_metadata thisB report now fetch)
            (InvalidBugReportData (BugReportSchema_metadata report))
          \<and> rejects_unsent (submitBugReport_C BugReportSchema_files this report now fetch)
            (InvalidBugReportData (BugReportSchema_files report))
          \<and> rejects_unsent (submitBugReport_C BugReportSchema_metadata this report now fetch)
            (InvalidBugReportData (BugReportSchema_metadata report))
          \<and> rejects_unsent (submitBugReport_D BugReportSchema_files this report now fetch)
            (InvalidBugReportData (BugReportSchema_files report))
          \<and> rejects_unsent (submitBugReport_D BugReportSchema_metadata this report now fetch)
            (InvalidBugReportData (BugReportSchema_metadata report)))"
proof -
  have files: "BugReportSchema_files report = [] \<longleftrightarrow>
        (title report \<noteq> [] \<and> length (title report) \<le> 200 \<and> description report \<noteq> []
          \<and> severity report \<in> set BugSeverity \<and> set (tags report) \<subseteq> set BugTagSchema
          \<and> createdAt report \<noteq> Some Invalid_Date)"
    by (auto simp: BugReportSchema_files_def string_min_def string_max_def enum_issues_def
          array_issues_enum_empty date_optional_empty)
  have metadata: "BugReportSchema_metadata report = [] \<longleftrightarrow>
        (title report \<noteq> [] \<and> length (title report) \<le> 200 \<and> description report \<noteq> []
          \<and> severity report \<in> set BugSeverity \<and> set (tags report) \<subseteq> set BugTagSchema
          \<and> tags report \<noteq> [] \<and> createdAt report \<noteq> Some Invalid_Date)"
    by (auto simp: BugReportSchema_metadata_def string_min_def string_max_def enum_issues_def
          array_min_def array_issues_enum_empty date_optional_empty)
  have rejected: "rejects_unsent (submitBugReport_A BugReportSchema_files this report now fetch)
            (InvalidBugReportData (BugReportSchema_files report))
          \<and> rejects_unsent (submitBugReport_A BugReportSchema_metadata this report now fetch)
            (InvalidBugReportData (BugReportSchema_metadata report))
          \<and> rejects_unsent (submitBugReport_B BugReportSchema_files thisB report now fetch)
            (InvalidBugReportData (BugReportSchema_files report))
          \<and> rejects_unsent (submitBugReport_B BugReportSchema_metadata thisB report now fetch)
            (InvalidBugReportData (BugReportSchema_metadata report))
          \<and> rejects_unsent (submitBugReport_C BugReportSchema_files this report now fetch)
            (InvalidBugReportData (BugReportSchema_files report))
          \<and> rejects_unsent (submitBugReport_C BugReportSchema_metadata this report now fetch)
            (InvalidBugReportData (BugReportSchema_metadata report))
          \<and> rejects_unsent (submitBugReport_D BugReportSchema_files this report now fetch)
            (InvalidBugReportData (BugReportSchema_files report))
          \<and> rejects_unsent (submitBugReport_D BugReportSchema_metadata this report now fetch)
            (InvalidBugReportData (BugReportSchema_metadata report))"
    if "BugReportSchema_files report \<noteq> []" and "BugReportSchema_metadata report \<noteq> []"
    using that
    by (simp add: rejects_unsent_def submitBugReport_A_def submitBugReport_B_def
          submitBugReport_C_def submitBugReport_D_def)
  have third: "title report = [] \<or> 200 < length (title report) \<or> description report = []
          \<or> \<not> set (tags report) \<subseteq> set BugTagSchema \<longrightarrow>
          rejects_unsent (submitBugReport_A BugReportSchema_files this report now fetch)
            (InvalidBugReportData (BugReportSchema_files report))
          \<and> rejects_unsent (submitBugReport_A BugReportSchema_metadata this report now fetch)
            (InvalidBugReportData (BugReportSchema_metadata report))
          \<and> rejects_unsent (submitBugReport_B BugReportSchema_files thisB report now fetch)
            (InvalidBugReportData (BugReportSchema_files report))
          \<and> rejects_unsent (submitBugReport_B BugReportSchema_metadata thisB report now fetch)
            (InvalidBugReportData (BugReportSchema_metadata report))
          \<and> rejects_unsent (submitBugReport_C BugReportSchema_files this report now fetch)
            (InvalidBugReportData (BugReportSchema_files report))
          \<and> rejects_unsent (submitBugReport_C BugReportSchema_metadata this report now fetch)
            (InvalidBugReportData (BugReportSchema_metadata report))
          \<and> rejects_unsent (submitBugReport_D BugReportSchema_files this report now fetch)
            (InvalidBugReportData (BugReportSchema_files report))
          \<and> rejects_unsent (submitBugReport_D BugReportSchema_metadata this report now fetch)
            (InvalidBugReportData (BugReportSchema_metadata report))"
  proof
    assume bad: "title report = [] \<or> 200 < length (title report) \<or> description report = []
          \<or> \<not> set (tags report) \<subseteq> set BugTagSchema"
    have "BugReportSchema_files report \<noteq> []"
      using bad files by auto
    moreover have "BugReportSchema_metadata report \<noteq> []"
      using bad metadata by auto
    ultimately show "rejects_unsent (submitBugReport_A BugReportSchema_files this report now fetch)
            (InvalidBugReportData (BugReportSchema_files report))
          \<and> rejects_unsent (submitBugReport_A BugReportSchema_metadata this report now fetch)
            (InvalidBugReportData (BugReportSchema_metadata report))
          \<and> rejects_unsent (submitBugReport_B BugReportSchema_files thisB report now fetch)
            (InvalidBugReportData (BugReportSchema_files report))
          \<and> rejects_unsent (submitBugReport_B BugReportSchema_metadata thisB report now fetch)
            (InvalidBugReportData (BugReportSchema_metadata report))
          \<and> rejects_unsent (submitBugReport_C BugReportSchema_files this report now fetch)
            (InvalidBugReportData (BugReportSchema_files report))
          \<and> rejects_unsent (submitBugReport_C BugReportSchema_metadata this report now fetch)
            (InvalidBugReportData (BugReportSchema_metadata report))
          \<and> rejects_unsent (submitBugReport_D BugReportSchema_files this report now fetch)
            (InvalidBugReportData (BugReportSchema_files report))
          \<and> rejects_unsent (submitBugReport_D BugReportSchema_metadata this report now fetch)
            (InvalidBugReportData (BugReportSchema_metadata report))"
      by (rule rejected)
  qed
  show ?thesis
    by (rule conjI [OF files conjI [OF metadata third]])
qed

theorem report_schema_accepts_exactly_witness:
  "\<not> set (tags (mockBugReport\<lparr>tags := [''UI'', ''TYPO'']\<rparr>)) \<subseteq> set BugTagSchema
   \<and> rejects_unsent
        (submitBugReport_C BugReportSchema_files mockClient_C
           (mockBugReport\<lparr>tags := [''UI'', ''TYPO'']\<rparr>) 0 (always (Responded 200 (Inr mockResponse))))
        (InvalidBugReportData [ZodIssue ''invalid_enum_value'' [Key ''tags'', Index 1]])
   \<and> BugReportSchema_files mockBugReport = []"
proof -
  have outside: "\<not> set (tags (mockBugReport\<lparr>tags := [''UI'', ''TYPO'']\<rparr>)) \<subseteq> set BugTagSchema"
    by (simp add: mockBugReport_def BugTagSchema_def)
  have issues: "BugReportSchema_files (mockBugReport\<lparr>tags := [''UI'', ''TYPO'']\<rparr>)
                = [ZodIssue ''invalid_enum_value'' [Key ''tags'', Index 1]]"
    by (simp add: schema_defs mockBugReport_def)
  show ?thesis
    using report_schema_accepts_exactly
        [where report = "mockBugReport\<lparr>tags := [''UI'', ''TYPO'']\<rparr>" and this = mockClient_C
           and thisB = mockClient_B and now = 0
           and fetch = "always (Responded 200 (Inr mockResponse))"]
      report_schema_accepts_exactly [where report = mockBugReport]
    by (simp add: outside issues) (simp add: mockBugReport_def BugSeverity_def BugTagSchema_def)
qed

end
